theory Spec2Isabelle
  imports Complex_Main "HOL-Library.Log_Nat"
begin

section \<open>Tabular data as the scripts see it\<close>

text \<open>
  The three case studies (Telco churn, Airbnb listings, Instacart baskets) work on pandas
  dataframes. The Telco and Airbnb frames are lists of typed rows; the Instacart frames,
  whose columns are assigned in place, are kept column by column. A numeric cell (a Python
  int or an IEEE double) is an exact rational here, and a missing cell (NaN) is \<open>None\<close>:
  comparisons of rationals agree with comparisons of the numbers they stand for, and every
  comparison with a missing cell is false, as it is for NaN. The arithmetic of doubles is
  modelled where a claim depends on it (the weekend lift of the Instacart summary);
  elsewhere rounding and the infinite doubles are outside this model.
\<close>

datatype error = ValueError | KeyError | TypeError

subsection \<open>The library calls the scripts rely on\<close>

text \<open>A bin edge of \<open>pd.cut\<close>: a number, or \<open>float('inf')\<close>.\<close>

datatype edge = Fin rat | PosInf

fun edge_lt :: "edge \<Rightarrow> edge \<Rightarrow> bool" where
  "edge_lt (Fin a) (Fin b) = (a < b)"
| "edge_lt (Fin a) PosInf = True"
| "edge_lt PosInf e = False"

text \<open>\<open>(np.diff(bins) < 0).any()\<close> is false: no edge is below its predecessor.\<close>

fun bins_monotonic :: "edge list \<Rightarrow> bool" where
  "bins_monotonic (a # b # es) = (\<not> edge_lt b a \<and> bins_monotonic (b # es))"
| "bins_monotonic es = True"

text \<open>
  \<open>bins.searchsorted(x, side='left')\<close> on increasing edges: the number of leading edges
  strictly below \<open>x\<close>.
\<close>

definition searchsorted_left :: "edge list \<Rightarrow> rat \<Rightarrow> nat" where
  "searchsorted_left bins x = length (takeWhile (\<lambda>e. edge_lt e (Fin x)) bins)"

text \<open>
  One value through \<open>pd.cut(x, bins, labels=labels, right=True, include_lowest=...)\<close>:
  the index \<open>ids\<close> of the first edge not below the value selects label \<open>ids - 1\<close>; index
  \<open>0\<close> (at or below the first edge), index \<open>len(bins)\<close> (above the last edge) and a
  missing value give a missing label. With \<open>include_lowest\<close> a value equal to the first
  edge is moved into the first bin.
\<close>

definition cut_one :: "edge list \<Rightarrow> string list \<Rightarrow> bool \<Rightarrow> rat option \<Rightarrow> string option" where
  "cut_one bins labels include_lowest x =
     (case x of
        None \<Rightarrow> None
      | Some v \<Rightarrow>
          (let ids0 = searchsorted_left bins v;
               ids = (if include_lowest \<and> bins \<noteq> [] \<and> Fin v = hd bins then 1 else ids0)
           in if ids = length bins \<or> ids = 0 then None else Some (labels ! (ids - 1))))"

text \<open>
  \<open>pd.cut\<close> on a column with an explicit edge list. The library refuses (ValueError)
  edges that decrease, edges that are not unique (the default \<open>duplicates='raise'\<close>; a list
  of exactly two edges is exempt), labels that are not unique, and a label list that is not
  one shorter than the edge list. Otherwise every value is binned by \<open>cut_one\<close>.
\<close>

definition pd_cut :: "rat option list \<Rightarrow> edge list \<Rightarrow> string list \<Rightarrow> bool \<Rightarrow> error + string option list" where
  "pd_cut xs bins labels include_lowest =
     (if \<not> bins_monotonic bins then Inl ValueError
      else if \<not> distinct bins \<and> length bins \<noteq> 2 then Inl ValueError
      else if \<not> distinct labels then Inl ValueError
      else if length labels + 1 \<noteq> length bins then Inl ValueError
      else Inr (map (cut_one bins labels include_lowest) xs))"

text \<open>The values of a column that are not missing (\<open>skipna\<close>).\<close>

definition present :: "'a option list \<Rightarrow> 'a list" where
  "present xs = List.map_filter id xs"

text \<open>
  \<open>Series.quantile(q)\<close> with the default linear interpolation: on the sorted present
  values \<open>vs\<close> the position is \<open>(n - 1) * q\<close>, and the result interpolates between the
  two neighbouring values. A column with no present value gives NaN.
\<close>

definition quantile :: "rat \<Rightarrow> rat option list \<Rightarrow> rat option" where
  "quantile q xs =
     (let vs = sort (present xs); n = length vs
      in if n = 0 then None
         else
           (let pos = of_nat (n - 1) * q;
                lo = nat \<lfloor>pos\<rfloor>;
                hi = min (lo + 1) (n - 1);
                g = pos - of_nat lo
            in Some (vs ! lo + (vs ! hi - vs ! lo) * g)))"

text \<open>\<open>Series.median()\<close>: the middle of the sorted present values, NaN when there is none.\<close>

definition median :: "rat option list \<Rightarrow> rat option" where
  "median xs =
     (let vs = sort (present xs); n = length vs
      in if n = 0 then None
         else if odd n then Some (vs ! (n div 2))
         else Some ((vs ! (n div 2 - 1) + vs ! (n div 2)) / 2))"

text \<open>\<open>DataFrame.drop_duplicates()\<close>: of equal rows the first is kept, in order.\<close>

definition drop_duplicates :: "'a list \<Rightarrow> 'a list" where
  "drop_duplicates xs = rev (remdups (rev xs))"

text \<open>Python's comparisons on cells that may be NaN.\<close>

fun ge_cell :: "rat option \<Rightarrow> rat option \<Rightarrow> bool" where
  "ge_cell (Some x) (Some y) = (y \<le> x)"
| "ge_cell a b = False"

fun gt_cell :: "rat option \<Rightarrow> rat option \<Rightarrow> bool" where
  "gt_cell (Some x) (Some y) = (y < x)"
| "gt_cell a b = False"

fun le_cell :: "rat option \<Rightarrow> rat option \<Rightarrow> bool" where
  "le_cell (Some x) (Some y) = (x \<le> y)"
| "le_cell a b = False"

subsection \<open>Arithmetic in doubles\<close>

text \<open>Rounding to the nearest integer, a tie going to the even one.\<close>

definition round_half_even :: "rat \<Rightarrow> int" where
  "round_half_even x =
     (let f = \<lfloor>x\<rfloor>; d = x - of_int f
      in if d < 1 / 2 then f else if 1 / 2 < d then f + 1 else if even f then f else f + 1)"

text \<open>
  For \<open>x \<noteq> 0\<close>, the exponent \<open>e\<close> with \<open>2^e \<le> |x| < 2^(e+1)\<close>: the difference of the bit
  lengths of numerator and denominator, or one less.
\<close>

definition binary_exponent :: "rat \<Rightarrow> int" where
  "binary_exponent x =
     (let (p, q) = quotient_of \<bar>x\<bar>; e = bitlen p - bitlen q
      in if 2 powi e \<le> \<bar>x\<bar> then e else e - 1)"

text \<open>
  The IEEE double nearest to \<open>x\<close> (53 significant bits, ties to even), as a rational.
  Overflow and subnormal numbers are left out: the values rounded here come from counts of
  rows and lie far inside the normal range.
\<close>

definition round_double :: "rat \<Rightarrow> rat" where
  "round_double x =
     (if x = 0 then 0
      else (let ulp = 2 powi (binary_exponent x - 52)
            in of_int (round_half_even (x / ulp)) * ulp))"

text \<open>
  Python's \<open>a / b\<close> on ints (the correctly rounded quotient; the caller guards
  \<open>b \<noteq> 0\<close>), \<open>x * y\<close> on doubles, and \<open>round(x, 1)\<close>: the double nearest to the
  value of \<open>x\<close> rounded to one decimal, ties to even.
\<close>

definition int_truediv :: "int \<Rightarrow> int \<Rightarrow> rat" where
  "int_truediv a b = round_double (of_int a / of_int b)"

definition float_mul :: "rat \<Rightarrow> rat \<Rightarrow> rat" where
  "float_mul x y = round_double (x * y)"

definition py_round1 :: "rat \<Rightarrow> rat" where
  "py_round1 x = round_double (of_int (round_half_even (x * 10)) / 10)"

section \<open>Telco customer churn: \<open>TelcoDataPreprocessor\<close>\<close>

text \<open>
  A cell of the \<open>TotalCharges\<close> column. The raw file holds it as free text, so the column
  may have dtype \<open>object\<close> (text cells) or be numeric.
\<close>

datatype tc_cell = Text string | Number rat | Missing

text \<open>
  A row of the Telco frame: the columns the preprocessor names. Any further column of the
  file lives in the record's extension part.
\<close>

record telco_row =
  SeniorCitizen :: "rat option"
  Partner :: "string option"
  Dependents :: "string option"
  tenure :: "rat option"
  PhoneService :: "string option"
  MultipleLines :: "string option"
  InternetService :: "string option"
  OnlineSecurity :: "string option"
  OnlineBackup :: "string option"
  DeviceProtection :: "string option"
  TechSupport :: "string option"
  StreamingTV :: "string option"
  StreamingMovies :: "string option"
  Contract :: "string option"
  PaymentMethod :: "string option"
  MonthlyCharges :: "rat option"
  TotalCharges :: tc_cell

subsection \<open>\<open>clean_data\<close>\<close>

fun is_text :: "tc_cell \<Rightarrow> bool" where
  "is_text (Text s) = True"
| "is_text c = False"

text \<open>The column has dtype \<open>object\<close> when it holds text.\<close>

definition dtype_object :: "tc_cell list \<Rightarrow> bool" where
  "dtype_object col = (\<exists>c \<in> set col. is_text c)"

text \<open>\<open>.replace(' ', np.nan)\<close>: a cell that is exactly one blank becomes missing.\<close>

fun replace_blank :: "tc_cell \<Rightarrow> tc_cell" where
  "replace_blank (Text s) = (if s = '' '' then Missing else Text s)"
| "replace_blank c = c"

text \<open>
  \<open>pd.to_numeric\<close> with its default \<open>errors='raise'\<close> on one cell. \<open>parse\<close> is the
  library's reading of a text as a number (\<open>None\<close>: the text is no number). The empty
  text converts to NaN; any other text that does not parse raises ValueError.
\<close>

fun to_numeric_cell :: "(string \<Rightarrow> rat option) \<Rightarrow> tc_cell \<Rightarrow> error + tc_cell" where
  "to_numeric_cell parse (Text s) =
     (if s = [] then Inr Missing
      else (case parse s of None \<Rightarrow> Inl ValueError | Some v \<Rightarrow> Inr (Number v)))"
| "to_numeric_cell parse c = Inr c"

fun to_numeric :: "(string \<Rightarrow> rat option) \<Rightarrow> tc_cell list \<Rightarrow> error + tc_cell list" where
  "to_numeric parse [] = Inr []"
| "to_numeric parse (c # cs) =
     (case to_numeric_cell parse c of
        Inl e \<Rightarrow> Inl e
      | Inr c' \<Rightarrow> (case to_numeric parse cs of Inl e \<Rightarrow> Inl e | Inr cs' \<Rightarrow> Inr (c' # cs')))"

fun number_of :: "tc_cell \<Rightarrow> rat option" where
  "number_of (Number v) = Some v"
| "number_of c = None"

text \<open>\<open>.fillna(m)\<close> on the converted column; filling with NaN changes nothing.\<close>

fun fillna_tc :: "rat option \<Rightarrow> tc_cell \<Rightarrow> tc_cell" where
  "fillna_tc (Some m) Missing = Number m"
| "fillna_tc m c = c"

text \<open>
  \<open>clean_data\<close> works on \<open>df.copy()\<close>. Only when the column has dtype \<open>object\<close> are
  blanks replaced, the column converted and its missing cells filled with the median; then
  duplicate rows are dropped. The in-place \<open>fillna\<close> on the selected column is taken to
  reach the frame, as it does without copy-on-write.
\<close>

definition telco_clean_data :: "(string \<Rightarrow> rat option) \<Rightarrow> 'a telco_row_scheme list \<Rightarrow> error + 'a telco_row_scheme list" where
  "telco_clean_data parse df =
     (if dtype_object (map TotalCharges df) then
        (case to_numeric parse (map (replace_blank \<circ> TotalCharges) df) of
           Inl e \<Rightarrow> Inl e
         | Inr col \<Rightarrow>
             (let m = median (map number_of col);
                  filled = map (fillna_tc m) col
              in Inr (drop_duplicates
                        (map (\<lambda>(r, c). r\<lparr>TotalCharges := c\<rparr>) (zip df filled)))))
      else Inr (drop_duplicates df))"

text \<open>
  The plain decimal numerals (\<open>12\<close>, \<open>-3.50\<close>, \<open>+7.\<close>): a fragment of what the library
  reads as a number, enough to run \<open>clean_data\<close> on concrete frames.
\<close>

definition digit_val :: "char \<Rightarrow> nat option" where
  "digit_val = map_of
     [(CHR ''0'', 0), (CHR ''1'', 1), (CHR ''2'', 2), (CHR ''3'', 3), (CHR ''4'', 4),
      (CHR ''5'', 5), (CHR ''6'', 6), (CHR ''7'', 7), (CHR ''8'', 8), (CHR ''9'', 9)]"

fun digits_val :: "nat \<Rightarrow> string \<Rightarrow> nat option" where
  "digits_val acc [] = Some acc"
| "digits_val acc (c # cs) =
     (case digit_val c of None \<Rightarrow> None | Some d \<Rightarrow> digits_val (10 * acc + d) cs)"

definition parse_unsigned :: "string \<Rightarrow> rat option" where
  "parse_unsigned s =
     (let ip = takeWhile (\<lambda>c. c \<noteq> CHR ''.'') s;
          rest = dropWhile (\<lambda>c. c \<noteq> CHR ''.'') s;
          fp = (if rest = [] then [] else tl rest)
      in if ip = [] then None
         else (case (digits_val 0 ip, digits_val 0 fp) of
                 (Some i, Some f) \<Rightarrow> Some (of_nat i + of_nat f / 10 ^ length fp)
               | _ \<Rightarrow> None))"

definition parse_decimal :: "string \<Rightarrow> rat option" where
  "parse_decimal s =
     (case s of
        [] \<Rightarrow> None
      | c # cs \<Rightarrow>
          if c = CHR ''-'' then map_option uminus (parse_unsigned cs)
          else if c = CHR ''+'' then parse_unsigned cs
          else parse_unsigned s)"

subsection \<open>\<open>engineer_features\<close>\<close>

text \<open>The nine columns the feature engineer appends to a row.\<close>

record telco_features =
  Is_Senior :: string
  Tenure_Group :: "string option"
  High_Charges :: string
  Service_Count :: nat
  Monthly_to_Total_Ratio :: "rat option"
  Has_Partner_Dependents :: string
  Internet_Plus_Streaming :: string
  Risk_Score :: int
  Risk_Category :: "string option"

definition tenure_bins :: "edge list" where
  "tenure_bins = [Fin 0, Fin 12, Fin 24, Fin 48, PosInf]"

definition tenure_labels :: "string list" where
  "tenure_labels = [''New (0-12m)'', ''Growing (13-24m)'', ''Mature (25-48m)'', ''Loyal (48m+)'']"

definition risk_bins :: "edge list" where
  "risk_bins = [Fin (-1), Fin 2, Fin 4, Fin 8]"

definition risk_labels :: "string list" where
  "risk_labels = [''Low Risk'', ''Medium Risk'', ''High Risk'']"

text \<open>\<open>lambda x: 'Yes' if x == 1 else 'No'\<close>\<close>

definition is_senior :: "rat option \<Rightarrow> string" where
  "is_senior x = (if x = Some 1 then ''Yes'' else ''No'')"

text \<open>\<open>lambda x: 'Yes' if x >= charges_75th else 'No'\<close>\<close>

definition high_charges :: "rat option \<Rightarrow> rat option \<Rightarrow> string" where
  "high_charges charges_75th x = (if ge_cell x charges_75th then ''Yes'' else ''No'')"

text \<open>\<open>count_services\<close>: the service columns of the row that read \<open>'Yes'\<close>.\<close>

definition service_cols :: "'a telco_row_scheme \<Rightarrow> string option list" where
  "service_cols row =
     [PhoneService row, MultipleLines row, InternetService row, OnlineSecurity row,
      OnlineBackup row, DeviceProtection row, TechSupport row, StreamingTV row,
      StreamingMovies row]"

fun count_yes :: "nat \<Rightarrow> string option list \<Rightarrow> nat" where
  "count_yes count [] = count"
| "count_yes count (c # cs) = count_yes (if c = Some ''Yes'' then count + 1 else count) cs"

definition count_services :: "'a telco_row_scheme \<Rightarrow> nat" where
  "count_services row = count_yes 0 (service_cols row)"

text \<open>
  \<open>MonthlyCharges / (TotalCharges + 1)\<close> on one row, for a numeric \<open>TotalCharges\<close>. A
  missing operand gives NaN; a zero denominator gives a non-finite double, which is
  \<open>None\<close> here as well.
\<close>

definition monthly_to_total :: "rat option \<Rightarrow> tc_cell \<Rightarrow> rat option" where
  "monthly_to_total m t =
     (case (m, number_of t) of
        (Some a, Some b) \<Rightarrow> (if b + 1 = 0 then None else Some (a / (b + 1)))
      | _ \<Rightarrow> None)"

text \<open>The boolean column rendered as text and replaced by \<open>'Yes'\<close>/\<open>'No'\<close>.\<close>

definition yes_no :: "bool \<Rightarrow> string" where
  "yes_no b = (if b then ''Yes'' else ''No'')"

definition has_partner_dependents :: "'a telco_row_scheme \<Rightarrow> string" where
  "has_partner_dependents row = yes_no (Partner row = Some ''Yes'' \<or> Dependents row = Some ''Yes'')"

definition internet_plus_streaming :: "'a telco_row_scheme \<Rightarrow> string" where
  "internet_plus_streaming row =
     yes_no (InternetService row \<noteq> Some ''No''
             \<and> (StreamingTV row = Some ''Yes'' \<or> StreamingMovies row = Some ''Yes''))"

text \<open>
  \<open>calculate_risk_score\<close>, the closure over \<open>charges_75th\<close>: the score starts at 0 and
  each rule adds its points in turn.
\<close>

definition calculate_risk_score :: "rat option \<Rightarrow> 'a telco_row_scheme \<Rightarrow> int" where
  "calculate_risk_score charges_75th row =
     (let score = 0;
          score = (if Contract row = Some ''Month-to-month'' then score + 3
                   else if Contract row = Some ''One year'' then score + 1
                   else score);
          score = (if le_cell (tenure row) (Some 12) then score + 2 else score);
          score = (if gt_cell (MonthlyCharges row) charges_75th then score + 1 else score);
          score = (if InternetService row = Some ''Fiber optic'' then score + 1 else score);
          score = (if PaymentMethod row = Some ''Electronic check'' then score + 1 else score)
      in score)"

text \<open>
  \<open>engineer_features\<close> on a frame with at least one row; the frame is copied first and
  the columns are computed in the source's order. Adding 1 to a text cell of
  \<open>TotalCharges\<close> raises TypeError.
\<close>

definition telco_engineer_features :: "'a telco_row_scheme list \<Rightarrow> error + ('a telco_row_scheme \<times> telco_features) list" where
  "telco_engineer_features df =
     (case pd_cut (map tenure df) tenure_bins tenure_labels False of
        Inl e \<Rightarrow> Inl e
      | Inr tenure_group \<Rightarrow>
          (let charges_75th = quantile (3 / 4) (map MonthlyCharges df) in
           if dtype_object (map TotalCharges df) then Inl TypeError
           else
             (let risk_score = map (calculate_risk_score charges_75th) df in
              case pd_cut (map (\<lambda>s. Some (of_int s)) risk_score) risk_bins risk_labels False of
                Inl e \<Rightarrow> Inl e
              | Inr risk_category \<Rightarrow>
                  Inr (map (\<lambda>i. (df ! i,
                         \<lparr>Is_Senior = is_senior (SeniorCitizen (df ! i)),
                          Tenure_Group = tenure_group ! i,
                          High_Charges = high_charges charges_75th (MonthlyCharges (df ! i)),
                          Service_Count = count_services (df ! i),
                          Monthly_to_Total_Ratio =
                            monthly_to_total (MonthlyCharges (df ! i)) (TotalCharges (df ! i)),
                          Has_Partner_Dependents = has_partner_dependents (df ! i),
                          Internet_Plus_Streaming = internet_plus_streaming (df ! i),
                          Risk_Score = risk_score ! i,
                          Risk_Category = risk_category ! i\<rparr>))
                       [0..<length df]))))"

text \<open>
  The columns of one row, given the threshold \<open>charges_75th\<close>: what the column-wise
  computation of \<open>engineer_features\<close> puts into row \<open>r\<close> (lemma
  \<open>telco_engineer_features_rows\<close> below).
\<close>

definition telco_feature_row :: "rat option \<Rightarrow> 'a telco_row_scheme \<Rightarrow> telco_features" where
  "telco_feature_row q r = 
         \<lparr>Is_Senior = is_senior (SeniorCitizen r),
          Tenure_Group = cut_one tenure_bins tenure_labels False (tenure r),
          High_Charges = high_charges q (MonthlyCharges r),
          Service_Count = count_services r,
          Monthly_to_Total_Ratio = monthly_to_total (MonthlyCharges r) (TotalCharges r),
          Has_Partner_Dependents = has_partner_dependents r,
          Internet_Plus_Streaming = internet_plus_streaming r,
          Risk_Score = calculate_risk_score q r,
          Risk_Category = cut_one risk_bins risk_labels False (Some (of_int (calculate_risk_score q r)))\<rparr>"

subsection \<open>The coercion of \<open>TotalCharges\<close>, cell by cell\<close>

text \<open>
  A text cell that is neither the single blank nor empty and that the library does not read
  as a number.
\<close>

definition unparseable :: "(string \<Rightarrow> rat option) \<Rightarrow> tc_cell \<Rightarrow> bool" where
  "unparseable parse c =
     (case c of Text s \<Rightarrow> s \<noteq> '' '' \<and> s \<noteq> [] \<and> parse s = None | Number v \<Rightarrow> False | Missing \<Rightarrow> False)"

text \<open>The number a raw cell stands for; none for a blank or missing cell.\<close>

definition coerced :: "(string \<Rightarrow> rat option) \<Rightarrow> tc_cell \<Rightarrow> rat option" where
  "coerced parse c =
     (case c of
        Text s \<Rightarrow> (if s = '' '' \<or> s = [] then None else parse s)
      | Number v \<Rightarrow> Some v
      | Missing \<Rightarrow> None)"

text \<open>A cell after the fill step: its own number, else the column median \<open>m\<close>.\<close>

definition median_filled :: "rat option \<Rightarrow> rat option \<Rightarrow> tc_cell" where
  "median_filled m v =
     (case v of Some x \<Rightarrow> Number x | None \<Rightarrow> (case m of Some y \<Rightarrow> Number y | None \<Rightarrow> Missing))"

subsection \<open>Sample frames\<close>

text \<open>
  A cleaned frame of five customers. The 75th percentile of its monthly charges is 70: row 0
  lies above it, row 2 exactly on it.
\<close>

definition telco_demo_row :: telco_row where
 "telco_demo_row = \<lparr>SeniorCitizen = Some 0, Partner = Some ''No'', Dependents = Some ''No'', tenure = Some 6,
   PhoneService = Some ''Yes'', MultipleLines = Some ''No'', InternetService = Some ''Fiber optic'',
   OnlineSecurity = Some ''No'', OnlineBackup = Some ''No'', DeviceProtection = Some ''No'',
   TechSupport = Some ''No'', StreamingTV = Some ''Yes'', StreamingMovies = Some ''No'',
   Contract = Some ''Month-to-month'', PaymentMethod = Some ''Electronic check'',
   MonthlyCharges = Some 100, TotalCharges = Number 600\<rparr>"

definition telco_demo :: "telco_row list" where
  "telco_demo =
     [telco_demo_row,
      telco_demo_row\<lparr>tenure := Some 24, MonthlyCharges := Some 20, TotalCharges := Number 480\<rparr>,
      telco_demo_row\<lparr>tenure := Some 12, Contract := Some ''One year'', MonthlyCharges := Some 70,
         TotalCharges := Number 840\<rparr>,
      telco_demo_row\<lparr>tenure := Some 0, Contract := Some ''Two year'', MonthlyCharges := Some 40,
         TotalCharges := Number 0\<rparr>,
      telco_demo_row\<lparr>SeniorCitizen := Some 1, tenure := Some 50, InternetService := Some ''DSL'',
         PaymentMethod := Some ''Mailed check'', MonthlyCharges := Some 60,
         TotalCharges := Number 3000\<rparr>]"

text \<open>A raw frame whose \<open>TotalCharges\<close> is text, with one blank and one repeated row.\<close>

definition telco_raw_demo :: "telco_row list" where
  "telco_raw_demo =
     [telco_demo_row\<lparr>TotalCharges := Text ''29.85''\<rparr>,
      telco_demo_row\<lparr>tenure := Some 0, TotalCharges := Text '' ''\<rparr>,
      telco_demo_row\<lparr>TotalCharges := Text ''108.15''\<rparr>,
      telco_demo_row\<lparr>TotalCharges := Text ''29.85''\<rparr>]"

section \<open>Airbnb listings: \<open>data_preprocessing.py\<close>\<close>

text \<open>
  A row of the listings frame: the columns the cleaner and the feature engineer name; the
  other columns of the file (\<open>id\<close>, \<open>name\<close>, \<open>host_id\<close>, ...) live in the extension part.
\<close>

record airbnb_row =
  neighbourhood_group :: "string option"
  room_type :: "string option"
  price :: "rat option"
  number_of_reviews :: "rat option"
  reviews_per_month :: "rat option"
  calculated_host_listings_count :: "rat option"
  availability_365 :: "rat option"

subsection \<open>\<open>clean_airbnb_data\<close>\<close>

text \<open>\<open>Series.fillna(v)\<close> on one cell.\<close>

fun fillna :: "'a \<Rightarrow> 'a option \<Rightarrow> 'a option" where
  "fillna v None = Some v"
| "fillna v (Some x) = Some x"

text \<open>
  \<open>df_clean[(df_clean['price'] >= price_min) & (df_clean['price'] <= price_max)]\<close>: the
  rows whose price passes both comparisons; a missing price passes neither.
\<close>

definition price_in_range :: "rat \<Rightarrow> rat \<Rightarrow> 'a airbnb_row_scheme list \<Rightarrow> 'a airbnb_row_scheme list" where
  "price_in_range price_min price_max df =
     filter (\<lambda>r. ge_cell (price r) (Some price_min) \<and> le_cell (price r) (Some price_max)) df"

text \<open>\<open>dropna(subset=['neighbourhood_group', 'room_type', 'price'])\<close>\<close>

definition dropna_critical :: "'a airbnb_row_scheme list \<Rightarrow> 'a airbnb_row_scheme list" where
  "dropna_critical df =
     filter (\<lambda>r. neighbourhood_group r \<noteq> None \<and> room_type r \<noteq> None \<and> price r \<noteq> None) df"

text \<open>The three column assignments that fill missing values.\<close>

definition fill_number_of_reviews :: "'a airbnb_row_scheme list \<Rightarrow> 'a airbnb_row_scheme list" where
  "fill_number_of_reviews df = map (\<lambda>r. r\<lparr>number_of_reviews := fillna 0 (number_of_reviews r)\<rparr>) df"

definition fill_reviews_per_month :: "'a airbnb_row_scheme list \<Rightarrow> 'a airbnb_row_scheme list" where
  "fill_reviews_per_month df = map (\<lambda>r. r\<lparr>reviews_per_month := fillna 0 (reviews_per_month r)\<rparr>) df"

definition fill_host_listings :: "'a airbnb_row_scheme list \<Rightarrow> 'a airbnb_row_scheme list" where
  "fill_host_listings df =
     map (\<lambda>r. r\<lparr>calculated_host_listings_count := fillna 1 (calculated_host_listings_count r)\<rparr>) df"

text \<open>The frame \<open>clean_airbnb_data\<close> returns.\<close>

definition clean_airbnb_data :: "'a airbnb_row_scheme list \<Rightarrow> rat \<Rightarrow> rat \<Rightarrow> 'a airbnb_row_scheme list" where
  "clean_airbnb_data df price_min price_max =
     (let df_clean = df;
          df_clean = price_in_range price_min price_max df_clean;
          df_clean = dropna_critical df_clean;
          df_clean = fill_number_of_reviews df_clean;
          df_clean = fill_reviews_per_month df_clean;
          df_clean = fill_host_listings df_clean
      in df_clean)"

text \<open>The call with the default bounds \<open>price_min = 10\<close>, \<open>price_max = 1000\<close>.\<close>

definition clean_airbnb_data_default :: "'a airbnb_row_scheme list \<Rightarrow> 'a airbnb_row_scheme list" where
  "clean_airbnb_data_default df = clean_airbnb_data df 10 1000"

subsection \<open>Dataframe objects\<close>

text \<open>
  Frames are objects: a stage gets a reference to the caller's frame, and an assignment to
  a column of a frame changes that object for everyone who holds it. The store maps
  references to frames; references below \<open>next_ref\<close> are in use.
\<close>

record 'f store =
  heap :: "nat \<Rightarrow> 'f"
  next_ref :: nat

text \<open>A new object (\<open>df.copy()\<close>, a row selection, \<open>dropna\<close>, \<open>merge\<close> all build one).\<close>

definition alloc :: "'f \<Rightarrow> 'f store \<Rightarrow> nat \<times> 'f store" where
  "alloc f st = (next_ref st, st\<lparr>heap := (heap st)(next_ref st := f), next_ref := Suc (next_ref st)\<rparr>)"

text \<open>An update of the object behind a reference (\<open>df[c] = ...\<close>).\<close>

definition assign :: "nat \<Rightarrow> 'f \<Rightarrow> 'f store \<Rightarrow> 'f store" where
  "assign a f st = st\<lparr>heap := (heap st)(a := f)\<rparr>"

text \<open>
  \<open>clean_airbnb_data\<close> on objects: \<open>df\<close> is the caller's reference. The copy, the price
  selection and \<open>dropna\<close> each build a new frame; the three fills assign columns of the
  last one, which is returned.
\<close>

definition clean_airbnb_data_obj :: "'a airbnb_row_scheme list store \<Rightarrow> nat \<Rightarrow> rat \<Rightarrow> rat \<Rightarrow> 'a airbnb_row_scheme list store \<times> nat" where
  "clean_airbnb_data_obj st df price_min price_max =
     (let (df_clean, st) = alloc (heap st df) st;
          (df_clean, st) = alloc (price_in_range price_min price_max (heap st df_clean)) st;
          (df_clean, st) = alloc (dropna_critical (heap st df_clean)) st;
          st = assign df_clean (fill_number_of_reviews (heap st df_clean)) st;
          st = assign df_clean (fill_reviews_per_month (heap st df_clean)) st;
          st = assign df_clean (fill_host_listings (heap st df_clean)) st
      in (st, df_clean))"

subsection \<open>\<open>engineer_features\<close>\<close>

text \<open>The five columns the feature engineer appends to a row.\<close>

record airbnb_features =
  revenue_potential :: "rat option"
  host_type :: string
  review_activity :: "string option"
  availability_category :: "string option"
  price_category :: "string option"

text \<open>\<open>price * (365 - availability_365) / 365\<close>; NaN when an operand is missing.\<close>

definition revenue_potential_of :: "rat option \<Rightarrow> rat option \<Rightarrow> rat option" where
  "revenue_potential_of p a =
     (case (p, a) of (Some x, Some y) \<Rightarrow> Some (x * (365 - y) / 365) | _ \<Rightarrow> None)"

text \<open>
  \<open>lambda x: 'Single Listing' if x == 1 else 'Multiple Listings' if x <= 5 else 'Super Host'\<close>
\<close>

definition host_type_of :: "rat option \<Rightarrow> string" where
  "host_type_of x =
     (if x = Some 1 then ''Single Listing''
      else if le_cell x (Some 5) then ''Multiple Listings''
      else ''Super Host'')"

definition review_bins :: "edge list" where
  "review_bins = [Fin 0, Fin 0, Fin 10, Fin 50, PosInf]"

definition review_labels :: "string list" where
  "review_labels = [''No Reviews'', ''Few Reviews'', ''Many Reviews'', ''Highly Reviewed'']"

definition availability_bins :: "edge list" where
  "availability_bins = [Fin 0, Fin 90, Fin 180, Fin 365]"

definition availability_labels :: "string list" where
  "availability_labels = [''Low Available'', ''Medium Available'', ''High Available'']"

definition price_bins :: "edge list" where
  "price_bins = [Fin 0, Fin 75, Fin 150, Fin 300, PosInf]"

definition price_labels :: "string list" where
  "price_labels = [''Budget'', ''Mid-Range'', ''Premium'', ''Luxury'']"

text \<open>
  \<open>engineer_features\<close>: the frame is copied, then the columns are computed in the source's
  order; a \<open>pd.cut\<close> that raises ends the call.
\<close>

definition airbnb_engineer_features :: "'a airbnb_row_scheme list \<Rightarrow> error + ('a airbnb_row_scheme \<times> airbnb_features) list" where
  "airbnb_engineer_features df =
     (let revenue = map (\<lambda>r. revenue_potential_of (price r) (availability_365 r)) df;
          host = map (\<lambda>r. host_type_of (calculated_host_listings_count r)) df
      in case pd_cut (map number_of_reviews df) review_bins review_labels False of
           Inl e \<Rightarrow> Inl e
         | Inr activity \<Rightarrow>
             (case pd_cut (map availability_365 df) availability_bins availability_labels False of
                Inl e \<Rightarrow> Inl e
              | Inr availability \<Rightarrow>
                  (case pd_cut (map price df) price_bins price_labels False of
                     Inl e \<Rightarrow> Inl e
                   | Inr category \<Rightarrow>
                       Inr (map (\<lambda>i. (df ! i,
                              \<lparr>revenue_potential = revenue ! i,
                               host_type = host ! i,
                               review_activity = activity ! i,
                               availability_category = availability ! i,
                               price_category = category ! i\<rparr>))
                            [0..<length df]))))"

subsection \<open>\<open>load_and_prepare_data\<close>\<close>

text \<open>What the loader prints; the final line reports the number of rows of the result.\<close>

datatype message = LoadingFrom string | CreatingSample | PreparationComplete nat

text \<open>
  \<open>files\<close> holds, for every path that exists, the frame \<open>pd.read_csv\<close> reads from it;
  \<open>sample\<close> is the frame \<open>create_sample_data()\<close> builds from its fixed seed. A path that
  is \<open>None\<close>, empty or absent selects the sample. The result is what was printed and
  either the prepared frame or the exception that ended the call.
\<close>

definition load_and_prepare_data :: "(string \<Rightarrow> 'a airbnb_row_scheme list option) \<Rightarrow> 'a airbnb_row_scheme list \<Rightarrow> string option \<Rightarrow> message list \<times> (error + ('a airbnb_row_scheme \<times> airbnb_features) list)" where
  "load_and_prepare_data files sample file_path =
     (let (out, df) =
            (case file_path of
               None \<Rightarrow> ([CreatingSample], sample)
             | Some p \<Rightarrow>
                 (if p = [] then ([CreatingSample], sample)
                  else (case files p of
                          None \<Rightarrow> ([CreatingSample], sample)
                        | Some f \<Rightarrow> ([LoadingFrom p], f))));
          df_clean = clean_airbnb_data_default df
      in case airbnb_engineer_features df_clean of
           Inl e \<Rightarrow> (out, Inl e)
         | Inr df_final \<Rightarrow> (out @ [PreparationComplete (length df_final)], Inr df_final))"

text \<open>Three listings: one in range, one priced out of range, one without a room type.\<close>

definition airbnb_demo_row :: airbnb_row where
  "airbnb_demo_row =
     \<lparr>neighbourhood_group = Some ''Brooklyn'', room_type = Some ''Private room'',
      price = Some 120, number_of_reviews = None, reviews_per_month = None,
      calculated_host_listings_count = None, availability_365 = Some 0\<rparr>"

definition airbnb_demo :: "airbnb_row list" where
  "airbnb_demo =
     [airbnb_demo_row,
      airbnb_demo_row\<lparr>price := Some 5000\<rparr>,
      airbnb_demo_row\<lparr>room_type := None\<rparr>]"

definition airbnb_demo_store :: "airbnb_row list store" where
  "airbnb_demo_store = \<lparr>heap = (\<lambda>a. if a = 0 then airbnb_demo else []), next_ref = 1\<rparr>"

section \<open>Instacart baskets: \<open>data_preprocessing.py\<close> and the executive summary\<close>

text \<open>
  The Instacart stages assign columns of the frame they are given, so here a frame is kept
  column by column, as the library keeps it: the number of rows and the columns in order,
  each a name with its cells. A cell is NaN, a number, a text, or a date (the number of days
  after 2017-01-01).
\<close>

datatype cell = NaN | Num rat | Str string | Day int

record frame =
  nrows :: nat
  columns :: "(string \<times> cell list) list"

text \<open>\<open>df[c]\<close>: the column, or KeyError.\<close>

definition get_col :: "string \<Rightarrow> frame \<Rightarrow> error + cell list" where
  "get_col c df = (case map_of (columns df) c of None \<Rightarrow> Inl KeyError | Some vs \<Rightarrow> Inr vs)"

text \<open>\<open>df[c] = vs\<close>: an existing column is replaced where it stands, a new one is appended.\<close>

fun put :: "string \<Rightarrow> cell list \<Rightarrow> (string \<times> cell list) list \<Rightarrow> (string \<times> cell list) list" where
  "put c vs [] = [(c, vs)]"
| "put c vs ((k, ws) # cs) = (if k = c then (c, vs) # cs else (k, ws) # put c vs cs)"

definition set_col :: "string \<Rightarrow> cell list \<Rightarrow> frame \<Rightarrow> frame" where
  "set_col c vs df = df\<lparr>columns := put c vs (columns df)\<rparr>"

text \<open>\<open>df[mask]\<close>: a new frame of the rows the boolean column \<open>sel\<close> selects.\<close>

definition keep :: "bool list \<Rightarrow> 'a list \<Rightarrow> 'a list" where
  "keep sel vs = map snd (filter fst (zip sel vs))"

definition select_rows :: "bool list \<Rightarrow> frame \<Rightarrow> frame" where
  "select_rows sel df =
     \<lparr>nrows = length (filter id sel), columns = map (\<lambda>(c, vs). (c, keep sel vs)) (columns df)\<rparr>"

text \<open>\<open>Series.nunique()\<close>: the number of distinct values, NaN not counted.\<close>

definition nunique :: "cell list \<Rightarrow> nat" where
  "nunique vs = length (remdups (filter (\<lambda>v. v \<noteq> NaN) vs))"

subsection \<open>The weekend lift of \<open>generate_executive_summary\<close>\<close>

text \<open>\<open>.isin([0, 6])\<close> on one cell.\<close>

definition isin_0_6 :: "cell \<Rightarrow> bool" where
  "isin_0_6 v = (v = Num 0 \<or> v = Num 6)"

text \<open>
  The local \<open>weekend_lift\<close> of \<open>generate_executive_summary\<close>, computed by the same three
  lines in \<open>complete_4p_analysis.py\<close> (324-327) and \<open>instacart_analysis_demo.py\<close>
  (258-261): the counts are ints, the quotient and the product are doubles, and a zero
  denominator gives the int 0.
\<close>

definition weekend_lift :: "frame \<Rightarrow> error + rat" where
  "weekend_lift master_df =
     (case get_col ''order_dow'' master_df of
        Inl e \<Rightarrow> Inl e
      | Inr dow \<Rightarrow>
          (case get_col ''order_id'' (select_rows (map isin_0_6 dow) master_df) of
             Inl e \<Rightarrow> Inl e
           | Inr weekend_ids \<Rightarrow>
               (case get_col ''order_id'' (select_rows (map (\<lambda>v. \<not> isin_0_6 v) dow) master_df) of
                  Inl e \<Rightarrow> Inl e
                | Inr weekday_ids \<Rightarrow>
                    (let weekend_orders = nunique weekend_ids;
                         weekday_orders = nunique weekday_ids
                     in Inr (if weekday_orders > 0
                             then float_mul
                                    (int_truediv (int weekend_orders - int weekday_orders)
                                       (int weekday_orders))
                                    100
                             else 0)))))"

text \<open>
  What the summary record holds under \<open>'weekend_lift'\<close>: \<open>instacart_analysis_demo.py\<close>
  (line 287) stores the value as computed, \<open>complete_4p_analysis.py\<close> (line 370) stores
  \<open>round(weekend_lift, 1)\<close>.
\<close>

definition demo_summary_weekend_lift :: "frame \<Rightarrow> error + rat" where
  "demo_summary_weekend_lift master_df = weekend_lift master_df"

definition complete_summary_weekend_lift :: "frame \<Rightarrow> error + rat" where
  "complete_summary_weekend_lift master_df =
     (case weekend_lift master_df of Inl e \<Rightarrow> Inl e | Inr v \<Rightarrow> Inr (py_round1 v))"

text \<open>
  The spec's count: the distinct order ids, NaN apart, among the rows whose day of week
  satisfies \<open>P\<close>.
\<close>

definition distinct_orders :: "(cell \<Rightarrow> bool) \<Rightarrow> cell list \<Rightarrow> cell list \<Rightarrow> nat" where
  "distinct_orders P dow ids =
     card {v. v \<noteq> NaN \<and> (\<exists>i. i < length dow \<and> i < length ids \<and> P (dow ! i) \<and> ids ! i = v)}"

subsection \<open>\<open>clean_data\<close>\<close>

text \<open>\<open>.fillna(v)\<close> on one cell.\<close>

definition fillna_cell :: "cell \<Rightarrow> cell \<Rightarrow> cell" where
  "fillna_cell v c = (if c = NaN then v else c)"

text \<open>
  \<open>dropna(subset=...)\<close>: KeyError when a named column is absent; otherwise a new frame of
  the rows that miss none of the named columns.
\<close>

definition dropna_subset :: "string list \<Rightarrow> frame \<Rightarrow> error + frame" where
  "dropna_subset names df =
     (if list_ex (\<lambda>c. map_of (columns df) c = None) names then Inl KeyError
      else Inr (select_rows
                  (map (\<lambda>i. list_all (\<lambda>c. case map_of (columns df) c of
                                              None \<Rightarrow> True
                                            | Some vs \<Rightarrow> vs ! i \<noteq> NaN) names)
                     [0..<nrows df])
                  df))"

text \<open>
  \<open>clean_data\<close> on objects; \<open>df\<close> is the caller's reference. The first statement assigns
  the filled column to the caller's frame itself (there is no copy); \<open>dropna\<close> then builds
  the frame that is returned. The validation lines read four columns of it. Console output
  is left out.
\<close>

definition instacart_clean_data :: "frame store \<Rightarrow> nat \<Rightarrow> frame store \<times> (error + nat)" where
  "instacart_clean_data st df =
     (case get_col ''days_since_prior_order'' (heap st df) of
        Inl e \<Rightarrow> (st, Inl e)
      | Inr days \<Rightarrow>
          (let st = assign df (set_col ''days_since_prior_order''
                                 (map (fillna_cell (Num 0)) days) (heap st df)) st
           in case dropna_subset [''product_name'', ''department'', ''aisle''] (heap st df) of
                Inl e \<Rightarrow> (st, Inl e)
              | Inr cleaned \<Rightarrow>
                  (let (df_new, st) = alloc cleaned st
                   in if list_all (\<lambda>c. map_of (columns cleaned) c \<noteq> None)
                           [''product_id'', ''order_id'', ''user_id'', ''department'']
                      then (st, Inr df_new)
                      else (st, Inl KeyError))))"

subsection \<open>\<open>engineer_features\<close>\<close>

text \<open>
  The cells of a column as numbers, for arithmetic and binning: a text or date cell makes
  the operation raise.
\<close>

fun numeric_cell :: "cell \<Rightarrow> error + rat option" where
  "numeric_cell NaN = Inr None"
| "numeric_cell (Num v) = Inr (Some v)"
| "numeric_cell (Str s) = Inl TypeError"
| "numeric_cell (Day d) = Inl TypeError"

fun numeric :: "cell list \<Rightarrow> error + rat option list" where
  "numeric [] = Inr []"
| "numeric (c # cs) =
     (case numeric_cell c of
        Inl e \<Rightarrow> Inl e
      | Inr v \<Rightarrow> (case numeric cs of Inl e \<Rightarrow> Inl e | Inr vs \<Rightarrow> Inr (v # vs)))"

text \<open>
  \<open>pd.to_datetime('2017-01-01') + pd.to_timedelta(order_number // 1000, unit='D')\<close> on one
  cell; the range of timestamps is not bounded here.
\<close>

definition synthetic_date_of :: "rat option \<Rightarrow> cell" where
  "synthetic_date_of v = (case v of None \<Rightarrow> NaN | Some x \<Rightarrow> Day \<lfloor>x / 1000\<rfloor>)"

text \<open>\<open>.map({0: 'Sunday', ..., 6: 'Saturday'})\<close>: a value that is no key maps to NaN.\<close>

definition dow_names :: "(rat \<times> string) list" where
  "dow_names =
     [(0, ''Sunday''), (1, ''Monday''), (2, ''Tuesday''), (3, ''Wednesday''),
      (4, ''Thursday''), (5, ''Friday''), (6, ''Saturday'')]"

definition dow_name_of :: "cell \<Rightarrow> cell" where
  "dow_name_of c =
     (case c of
        Num n \<Rightarrow> (case map_of dow_names n of None \<Rightarrow> NaN | Some s \<Rightarrow> Str s)
      | _ \<Rightarrow> NaN)"

definition hour_bins :: "edge list" where
  "hour_bins = [Fin 0, Fin 6, Fin 12, Fin 18, Fin 24]"

definition hour_labels :: "string list" where
  "hour_labels = [''Night'', ''Morning'', ''Afternoon'', ''Evening'']"

definition label_cell :: "string option \<Rightarrow> cell" where
  "label_cell l = (case l of None \<Rightarrow> NaN | Some s \<Rightarrow> Str s)"

text \<open>
  \<open>groupby('order_id').size()\<close> merged back on \<open>order_id\<close> (a left join): every row gets
  the number of rows of its order; a row without order id gets NaN.
\<close>

definition basket_sizes :: "cell list \<Rightarrow> cell list" where
  "basket_sizes ids =
     map (\<lambda>v. if v = NaN then NaN else Num (of_nat (length (filter (\<lambda>w. w = v) ids)))) ids"

text \<open>
  The merged frame is a new object with \<open>basket_size\<close> appended; a column of that name
  already in the frame is renamed by the merge suffixes.
\<close>

definition merge_basket_size :: "cell list \<Rightarrow> frame \<Rightarrow> frame" where
  "merge_basket_size sizes df =
     (if map_of (columns df) ''basket_size'' = None
      then df\<lparr>columns := columns df @ [(''basket_size'', sizes)]\<rparr>
      else df\<lparr>columns :=
                map (\<lambda>(c, vs). (if c = ''basket_size'' then ''basket_size_x'' else c, vs)) (columns df)
                @ [(''basket_size_y'', sizes)]\<rparr>)"

text \<open>\<open>np.linspace(a, b, 5)\<close>\<close>

definition linspace5 :: "rat \<Rightarrow> rat \<Rightarrow> rat list" where
  "linspace5 a b = [a, a + (b - a) / 4, a + 2 * (b - a) / 4, a + 3 * (b - a) / 4, b]"

text \<open>
  The edges \<open>pd.cut(x, bins=4)\<close> computes from the present values: four equal-width bins
  from the minimum to the maximum, the first edge lowered by 0.1 percent of the range; when
  all values are equal the range is widened by 0.1 percent of the value (by 0.001 at zero).
\<close>

definition period_edges :: "rat list \<Rightarrow> rat list" where
  "period_edges vs =
     (let mn = Min (set vs); mx = Max (set vs)
      in if mn = mx
         then linspace5 (mn - (if mn \<noteq> 0 then 1 / 1000 * \<bar>mn\<bar> else 1 / 1000))
                        (mx + (if mx \<noteq> 0 then 1 / 1000 * \<bar>mx\<bar> else 1 / 1000))
         else (let bins = linspace5 mn mx; adj = (mx - mn) * (1 / 1000)
               in (hd bins - adj) # tl bins))"

definition period_labels :: "string list" where
  "period_labels = [''Period 1'', ''Period 2'', ''Period 3'', ''Period 4'']"

text \<open>
  \<open>pd.cut(df['order_number'], bins=4, labels=...)\<close>: ValueError on a column with no
  present value (an empty frame included).
\<close>

definition time_period_of :: "cell list \<Rightarrow> error + cell list" where
  "time_period_of order_number =
     (case numeric order_number of
        Inl e \<Rightarrow> Inl e
      | Inr xs \<Rightarrow>
          if present xs = [] then Inl ValueError
          else (case pd_cut xs (map Fin (period_edges (present xs))) period_labels False of
                  Inl e \<Rightarrow> Inl e
                | Inr ls \<Rightarrow> Inr (map label_cell ls)))"

text \<open>
  \<open>engineer_features\<close> on objects; \<open>df\<close> is the caller's reference. The first three
  features are assigned to the caller's frame itself; \<open>merge\<close> then builds a new frame,
  which gets \<open>time_period\<close> and is returned. Console output is left out.
\<close>

definition instacart_engineer_features :: "frame store \<Rightarrow> nat \<Rightarrow> frame store \<times> (error + nat)" where
  "instacart_engineer_features st df =
     (case get_col ''order_number'' (heap st df) of
        Inl e \<Rightarrow> (st, Inl e)
      | Inr order_number \<Rightarrow>
     (case numeric order_number of
        Inl e \<Rightarrow> (st, Inl e)
      | Inr ns \<Rightarrow>
     (let st = assign df (set_col ''synthetic_date'' (map synthetic_date_of ns) (heap st df)) st
      in case get_col ''order_dow'' (heap st df) of
        Inl e \<Rightarrow> (st, Inl e)
      | Inr dow \<Rightarrow>
     (let st = assign df (set_col ''order_dow_name'' (map dow_name_of dow) (heap st df)) st
      in case get_col ''order_hour_of_day'' (heap st df) of
        Inl e \<Rightarrow> (st, Inl e)
      | Inr hours \<Rightarrow>
     (case numeric hours of
        Inl e \<Rightarrow> (st, Inl e)
      | Inr hs \<Rightarrow>
     (case pd_cut hs hour_bins hour_labels True of
        Inl e \<Rightarrow> (st, Inl e)
      | Inr cats \<Rightarrow>
     (let st = assign df (set_col ''hour_category'' (map label_cell cats) (heap st df)) st
      in case get_col ''order_id'' (heap st df) of
        Inl e \<Rightarrow> (st, Inl e)
      | Inr ids \<Rightarrow>
     (let (df_new, st) = alloc (merge_basket_size (basket_sizes ids) (heap st df)) st
      in case get_col ''order_number'' (heap st df_new) of
        Inl e \<Rightarrow> (st, Inl e)
      | Inr numbers \<Rightarrow>
     (case time_period_of numbers of
        Inl e \<Rightarrow> (st, Inl e)
      | Inr periods \<Rightarrow>
          (assign df_new (set_col ''time_period'' periods (heap st df_new)) st,
           Inr df_new))))))))))"

text \<open>
  A master frame of five order lines in four orders: orders 1, 2 and 3 on a weekend day,
  order 4 on a weekday; the two lines of order 1 have no \<open>days_since_prior_order\<close>.
\<close>

definition instacart_demo :: frame where
  "instacart_demo =
     \<lparr>nrows = 5,
      columns =
        [(''order_id'', [Num 1, Num 1, Num 2, Num 3, Num 4]),
         (''product_id'', [Num 10, Num 11, Num 10, Num 12, Num 10]),
         (''user_id'', [Num 7, Num 7, Num 8, Num 8, Num 9]),
         (''order_number'', [Num 1, Num 1, Num 2, Num 3, Num 5]),
         (''order_dow'', [Num 0, Num 0, Num 6, Num 6, Num 3]),
         (''order_hour_of_day'', [Num 0, Num 0, Num 9, Num 13, Num 23]),
         (''days_since_prior_order'', [NaN, NaN, Num 7, Num 30, Num 2]),
         (''product_name'', [Str ''Chips'', Str ''Candy'', Str ''Chips'', Str ''Cake'', Str ''Chips'']),
         (''department'', [Str ''snacks'', Str ''snacks'', Str ''snacks'', Str ''bakery'', Str ''snacks'']),
         (''aisle'', [Str ''chips pretzels'', Str ''candy chocolate'', Str ''chips pretzels'',
                     Str ''cookies cakes'', Str ''chips pretzels''])]\<rparr>"

text \<open>A frame with a single order, placed on a Saturday.\<close>

definition instacart_weekend_only :: frame where
  "instacart_weekend_only =
     \<lparr>nrows = 1, columns = [(''order_id'', [Num 1]), (''order_dow'', [Num 6])]\<rparr>"

text \<open>Seven orders of one line each: four on a weekend day, three on weekdays.\<close>

definition instacart_week :: frame where
  "instacart_week =
     \<lparr>nrows = 7,
      columns =
        [(''order_id'', [Num 1, Num 2, Num 3, Num 4, Num 5, Num 6, Num 7]),
         (''order_dow'', [Num 0, Num 6, Num 0, Num 6, Num 1, Num 2, Num 3])]\<rparr>"

definition instacart_demo_store :: "frame store" where
  "instacart_demo_store =
     \<lparr>heap = (\<lambda>a. if a = 0 then instacart_demo else \<lparr>nrows = 0, columns = []\<rparr>), next_ref = 1\<rparr>"

section \<open>Properties of the Telco preprocessor\<close>

subsection \<open>The feature engineer, row by row\<close>

lemma pd_cut_tenure: "pd_cut xs tenure_bins tenure_labels False = Inr (map (cut_one tenure_bins tenure_labels False) xs)"
  by (simp add: pd_cut_def tenure_bins_def tenure_labels_def)

lemma pd_cut_risk: "pd_cut xs risk_bins risk_labels False = Inr (map (cut_one risk_bins risk_labels False) xs)"
  by (simp add: pd_cut_def risk_bins_def risk_labels_def)

lemma map_upt_nth: "map (\<lambda>i. f (xs ! i)) [0..<length xs] = map f xs"
  by (rule nth_equalityI) simp_all

lemma telco_engineer_features_rows:
  assumes "\<not> dtype_object (map TotalCharges df)"
  shows "telco_engineer_features df = 
    Inr (map (\<lambda>r. (r, telco_feature_row (quantile (3 / 4) (map MonthlyCharges df)) r)) df)"
    (is "_ = Inr (map ?F df)")
proof -
  have "telco_engineer_features df = Inr (map (\<lambda>i. ?F (df ! i)) [0..<length df])"
    unfolding telco_engineer_features_def pd_cut_tenure pd_cut_risk Let_def telco_feature_row_def
    using assms by (simp cong: map_cong)
  then show ?thesis using map_upt_nth[of ?F df] by simp
qed

lemma demo_numeric: "\<not> dtype_object (map TotalCharges telco_demo)"
  by (simp add: telco_demo_def telco_demo_row_def dtype_object_def)

lemma demo_quantile: "quantile (3 / 4) (map MonthlyCharges telco_demo) = Some 70"
  by code_simp

lemma cut_one_risk8: "cut_one risk_bins risk_labels False (Some 8) = Some ''High Risk''"
  by (simp add: cut_one_def risk_bins_def risk_labels_def searchsorted_left_def)

lemma cut_one_tenure:
  "cut_one tenure_bins tenure_labels False (Some t) =
     (if t \<le> 0 then None
      else if t \<le> 12 then Some ''New (0-12m)''
      else if t \<le> 24 then Some ''Growing (13-24m)''
      else if t \<le> 48 then Some ''Mature (25-48m)''
      else Some ''Loyal (48m+)'')"
  by (simp add: cut_one_def tenure_bins_def tenure_labels_def searchsorted_left_def)

lemma cut_one_missing: "cut_one bins labels lowest None = None"
  by (simp add: cut_one_def)

text \<open>
  Claim C1. On a frame with numeric \<open>TotalCharges\<close>, a row with
  \<open>Contract = "Month-to-month"\<close>, \<open>tenure = 6\<close>, \<open>MonthlyCharges\<close> strictly above
  the 75th percentile computed from the frame, \<open>InternetService = "Fiber optic"\<close> and
  \<open>PaymentMethod = "Electronic check"\<close> gets \<open>Risk_Score = 3 + 2 + 1 + 1 + 1 = 8\<close>, and
  the bucket edges \<open>(-1, 2, 4, 8]\<close> give \<open>Risk_Category = "High Risk"\<close>.
\<close>

theorem telco_high_risk_scenario:
  assumes numeric: "\<not> dtype_object (map TotalCharges df)"
    and i: "i < length df"
    and contract: "Contract (df ! i) = Some ''Month-to-month''"
    and ten: "tenure (df ! i) = Some 6"
    and q: "quantile (3 / 4) (map MonthlyCharges df) = Some q"
    and m: "MonthlyCharges (df ! i) = Some m" "q < m"
    and internet: "InternetService (df ! i) = Some ''Fiber optic''"
    and payment: "PaymentMethod (df ! i) = Some ''Electronic check''"
  shows "\<exists>out. telco_engineer_features df = Inr out \<and> length out = length df
           \<and> fst (out ! i) = df ! i
           \<and> Risk_Score (snd (out ! i)) = 3 + 2 + 1 + 1 + 1
           \<and> Risk_Score (snd (out ! i)) = 8
           \<and> Risk_Category (snd (out ! i)) = Some ''High Risk''"
proof -
  have score: "calculate_risk_score (Some q) (df ! i) = 8"
    using contract ten m internet payment by (simp add: calculate_risk_score_def)
  show ?thesis
    using i by (simp add: telco_engineer_features_rows[OF numeric] q telco_feature_row_def score cut_one_risk8)
qed

theorem telco_high_risk_scenario_witness:
  "\<not> dtype_object (map TotalCharges telco_demo) \<and> 0 < length telco_demo
   \<and> Contract (telco_demo ! 0) = Some ''Month-to-month'' \<and> tenure (telco_demo ! 0) = Some 6
   \<and> quantile (3 / 4) (map MonthlyCharges telco_demo) = Some 70
   \<and> MonthlyCharges (telco_demo ! 0) = Some 100
   \<and> InternetService (telco_demo ! 0) = Some ''Fiber optic''
   \<and> PaymentMethod (telco_demo ! 0) = Some ''Electronic check''
   \<and> (\<exists>out. telco_engineer_features telco_demo = Inr out
          \<and> Risk_Score (snd (out ! 0)) = 8 \<and> Risk_Category (snd (out ! 0)) = Some ''High Risk'')"
proof -
  have rows: "0 < length telco_demo" "Contract (telco_demo ! 0) = Some ''Month-to-month''"
    "tenure (telco_demo ! 0) = Some 6" "MonthlyCharges (telco_demo ! 0) = Some 100"
    "InternetService (telco_demo ! 0) = Some ''Fiber optic''"
    "PaymentMethod (telco_demo ! 0) = Some ''Electronic check''"
    by (simp_all add: telco_demo_def telco_demo_row_def)
  have "(70::rat) < 100" by simp
  from telco_high_risk_scenario[OF demo_numeric rows(1,2,3) demo_quantile rows(4) this rows(5,6)]
  show ?thesis using demo_numeric demo_quantile rows by blast
qed

text \<open>
  What the tenure bucketing computes: label \<open>k\<close> is given exactly when the tenure is above
  edge \<open>k\<close> and not above edge \<open>k + 1\<close> (every bin left-open and right-closed), so a
  tenure at or below the first edge 0, like a missing one, gets no label.
\<close>

lemma tenure_group_right_closed:
  assumes numeric: "\<not> dtype_object (map TotalCharges df)"
    and i: "i < length df"
  shows "\<exists>out. telco_engineer_features df = Inr out \<and> length out = length df
           \<and> fst (out ! i) = df ! i
           \<and> (case tenure (df ! i) of
                 None \<Rightarrow> Tenure_Group (snd (out ! i)) = None
               | Some t \<Rightarrow>
                   (\<forall>k < 4. (Tenure_Group (snd (out ! i)) = Some (tenure_labels ! k))
                        = (edge_lt (tenure_bins ! k) (Fin t) \<and> \<not> edge_lt (tenure_bins ! Suc k) (Fin t)))
                   \<and> ((Tenure_Group (snd (out ! i)) = None) = (t \<le> 0))
                   \<and> (t = 24 \<longrightarrow> Tenure_Group (snd (out ! i)) = Some ''Growing (13-24m)''))"
proof -
  have k4: "k < 4 \<longleftrightarrow> k = 0 \<or> k = 1 \<or> k = 2 \<or> k = 3" for k :: nat by arith
  have bins: "\<forall>k < 4. (cut_one tenure_bins tenure_labels False (Some t) = Some (tenure_labels ! k))
                  = (edge_lt (tenure_bins ! k) (Fin t) \<and> \<not> edge_lt (tenure_bins ! Suc k) (Fin t))" for t
    unfolding cut_one_tenure k4
    by (auto simp: tenure_bins_def tenure_labels_def)
  show ?thesis
    using i bins
    by (simp add: telco_engineer_features_rows[OF numeric] telco_feature_row_def
          cut_one_missing cut_one_tenure split: option.split)
qed

text \<open>
  Claim C6, evaluated. On the sample frame the customer with \<open>tenure = 24\<close> gets
  \<open>"Growing (13-24m)"\<close>, as claimed, but the customer with \<open>tenure = 0\<close> gets no
  \<open>Tenure_Group\<close> at all, although 0 is the first documented edge and the first label
  reads \<open>"New (0-12m)"\<close>. With \<open>include_lowest\<close>, which the hour bucketing of the
  Instacart feature engineer passes, the same edges put 0 into the first bin.
\<close>

theorem tenure_zero_gets_no_label:
  "tenure (telco_demo ! 3) = Some 0 \<and> tenure (telco_demo ! 1) = Some 24
   \<and> (\<exists>out. telco_engineer_features telco_demo = Inr out
          \<and> Tenure_Group (snd (out ! 3)) = None
          \<and> Tenure_Group (snd (out ! 1)) = Some ''Growing (13-24m)'')
   \<and> hd tenure_bins = Fin 0 \<and> hd tenure_labels = ''New (0-12m)''
   \<and> cut_one tenure_bins tenure_labels True (Some 0) = Some ''New (0-12m)''
   \<and> cut_one hour_bins hour_labels True (Some 0) = Some ''Night''"
proof -
  have rows: "tenure (telco_demo ! 3) = Some 0" "tenure (telco_demo ! 1) = Some 24"
    "3 < length telco_demo" "1 < length telco_demo"
    by (simp_all add: telco_demo_def telco_demo_row_def)
  have out: "\<exists>out. telco_engineer_features telco_demo = Inr out
          \<and> Tenure_Group (snd (out ! 3)) = None
          \<and> Tenure_Group (snd (out ! 1)) = Some ''Growing (13-24m)''"
    using rows
    by (simp add: telco_engineer_features_rows[OF demo_numeric] telco_feature_row_def cut_one_tenure)
  have lowest: "cut_one tenure_bins tenure_labels True (Some 0) = Some ''New (0-12m)''"
    "cut_one hour_bins hour_labels True (Some 0) = Some ''Night''"
    by (simp_all add: cut_one_def tenure_bins_def tenure_labels_def hour_bins_def hour_labels_def
          searchsorted_left_def)
  have "hd tenure_bins = Fin 0" "hd tenure_labels = ''New (0-12m)''"
    by (simp_all add: tenure_bins_def tenure_labels_def)
  with rows(1,2) out lowest show ?thesis by (intro conjI)
qed

text \<open>
  Claim C9. A row whose \<open>MonthlyCharges\<close> equals the computed 75th percentile gets
  \<open>High_Charges = "Yes"\<close> (the flag compares with \<open>\<ge>\<close>) while the charges rule adds
  nothing to \<open>Risk_Score\<close> (the score compares with \<open>>\<close>): the score is the one the row
  would get with no monthly charge at all. Flag and risk point disagree only there: strictly
  above the threshold the flag is \<open>"Yes"\<close> and the score is one higher, strictly below it
  the flag is \<open>"No"\<close> and the score is the same.
\<close>

theorem high_charges_flag_vs_risk_point:
  assumes numeric: "\<not> dtype_object (map TotalCharges df)"
    and i: "i < length df"
    and q: "quantile (3 / 4) (map MonthlyCharges df) = Some q"
    and m: "MonthlyCharges (df ! i) = Some q"
  shows "\<exists>out. telco_engineer_features df = Inr out \<and> length out = length df
           \<and> fst (out ! i) = df ! i
           \<and> High_Charges (snd (out ! i)) = ''Yes''
           \<and> Risk_Score (snd (out ! i))
                = calculate_risk_score (Some q) ((df ! i)\<lparr>MonthlyCharges := None\<rparr>)
           \<and> (\<forall>m'. q < m' \<longrightarrow>
                  calculate_risk_score (Some q) ((df ! i)\<lparr>MonthlyCharges := Some m'\<rparr>)
                    = Risk_Score (snd (out ! i)) + 1
                  \<and> high_charges (Some q) (Some m') = ''Yes'')
           \<and> (\<forall>m'. m' < q \<longrightarrow>
                  calculate_risk_score (Some q) ((df ! i)\<lparr>MonthlyCharges := Some m'\<rparr>)
                    = Risk_Score (snd (out ! i))
                  \<and> high_charges (Some q) (Some m') = ''No'')"
  using i m
  by (simp add: telco_engineer_features_rows[OF numeric] q telco_feature_row_def
        high_charges_def calculate_risk_score_def)

theorem high_charges_flag_vs_risk_point_witness:
  "\<not> dtype_object (map TotalCharges telco_demo) \<and> 2 < length telco_demo
   \<and> quantile (3 / 4) (map MonthlyCharges telco_demo) = Some 70
   \<and> MonthlyCharges (telco_demo ! 2) = Some 70
   \<and> (\<exists>out. telco_engineer_features telco_demo = Inr out
          \<and> High_Charges (snd (out ! 2)) = ''Yes'' \<and> Risk_Score (snd (out ! 2)) = 5)"
proof -
  have rows: "2 < length telco_demo" "MonthlyCharges (telco_demo ! 2) = Some 70"
    by (simp_all add: telco_demo_def telco_demo_row_def)
  have score: "calculate_risk_score (Some 70) ((telco_demo ! 2)\<lparr>MonthlyCharges := None\<rparr>) = 5"
    by (simp add: telco_demo_def telco_demo_row_def calculate_risk_score_def)
  from high_charges_flag_vs_risk_point[OF demo_numeric rows(1) demo_quantile rows(2)]
  show ?thesis using demo_numeric demo_quantile rows score by auto
qed

subsection \<open>Numeric coercion in \<open>clean_data\<close>\<close>

lemma to_numeric_replace_blank:
  "to_numeric parse (map replace_blank cs) =
     (if \<exists>c \<in> set cs. unparseable parse c then Inl ValueError
      else Inr (map (\<lambda>c. case coerced parse c of Some v \<Rightarrow> Number v | None \<Rightarrow> Missing) cs))"
proof (induction cs)
  case Nil
  then show ?case by simp
next
  case (Cons c cs)
  show ?case
  proof (cases c)
    case (Text s)
    then show ?thesis using Cons.IH
      by (auto simp: unparseable_def coerced_def split: option.splits)
  next
    case (Number v)
    then show ?thesis using Cons.IH by (auto simp: unparseable_def coerced_def)
  next
    case Missing
    then show ?thesis using Cons.IH by (auto simp: unparseable_def coerced_def)
  qed
qed

lemma number_of_coerced:
  "number_of (case coerced parse c of Some v \<Rightarrow> Number v | None \<Rightarrow> Missing) = coerced parse c"
  by (cases "coerced parse c") simp_all

lemma fillna_coerced:
  "fillna_tc m (case v of Some x \<Rightarrow> Number x | None \<Rightarrow> Missing) = median_filled m v"
  by (cases v; cases m) (simp_all add: median_filled_def)

lemma zip_map_same: "map (\<lambda>(r, c). h r c) (zip xs (map f xs)) = map (\<lambda>r. h r (f r)) xs"
  by (induction xs) simp_all

text \<open>
  Claim C2, as the code has it. When \<open>TotalCharges\<close> arrives as text, \<open>clean_data\<close>
  raises ValueError as soon as one text entry other than the single blank (or the empty text)
  does not parse as a number, whatever the parser; only when every such entry parses does it
  return, and then the blank and missing entries are treated as missing and filled with the
  median of the parsed values before duplicate rows are dropped.
\<close>

theorem telco_clean_data_coercion:
  assumes "dtype_object (map TotalCharges df)"
  shows "telco_clean_data parse df =
     (if \<exists>r \<in> set df. unparseable parse (TotalCharges r) then Inl ValueError
      else Inr (drop_duplicates
             (map (\<lambda>r. r\<lparr>TotalCharges :=
                        median_filled (median (map (coerced parse \<circ> TotalCharges) df))
                          (coerced parse (TotalCharges r))\<rparr>) df)))"
proof -
  have conv: "to_numeric parse (map (replace_blank \<circ> TotalCharges) df) =
     (if \<exists>r \<in> set df. unparseable parse (TotalCharges r) then Inl ValueError
      else Inr (map (\<lambda>c. case coerced parse c of Some v \<Rightarrow> Number v | None \<Rightarrow> Missing)
                 (map TotalCharges df)))"
    using to_numeric_replace_blank[of parse "map TotalCharges df"] by simp
  show ?thesis
  proof (cases "\<exists>r \<in> set df. unparseable parse (TotalCharges r)")
    case True
    then show ?thesis using assms by (simp add: telco_clean_data_def conv)
  next
    case False
    let ?conv = "\<lambda>c. case coerced parse c of Some v \<Rightarrow> Number v | None \<Rightarrow> Missing"
    let ?m = "median (map (coerced parse \<circ> TotalCharges) df)"
    have tn: "to_numeric parse (map (replace_blank \<circ> TotalCharges) df)
                = Inr (map ?conv (map TotalCharges df))"
      using conv False by simp
    have med: "map number_of (map ?conv (map TotalCharges df)) = map (coerced parse \<circ> TotalCharges) df"
      by (simp add: number_of_coerced)
    have filled: "map (fillna_tc ?m) (map ?conv (map TotalCharges df))
                = map (\<lambda>r. median_filled ?m (coerced parse (TotalCharges r))) df"
      by (simp add: fillna_coerced)
    have rows: "map (\<lambda>(r, c). r\<lparr>TotalCharges := c\<rparr>)
             (zip df (map (\<lambda>r. median_filled ?m (coerced parse (TotalCharges r))) df))
          = map (\<lambda>r. r\<lparr>TotalCharges := median_filled ?m (coerced parse (TotalCharges r))\<rparr>) df"
      by (rule zip_map_same)
    have "telco_clean_data parse df
            = Inr (drop_duplicates (map (\<lambda>(r, c). r\<lparr>TotalCharges := c\<rparr>)
                 (zip df (map (fillna_tc ?m) (map ?conv (map TotalCharges df))))))"
      unfolding telco_clean_data_def tn Let_def using assms by (simp add: comp_def number_of_coerced)
    then show ?thesis
      unfolding filled rows using False by simp
  qed
qed

text \<open>
  The claim as stated (an entry that cannot be parsed never raises) fails on the one-row
  frame whose \<open>TotalCharges\<close> is \<open>"abc"\<close>.
\<close>

theorem telco_clean_data_raises: 
  "parse_decimal ''abc'' = None
   \<and> telco_clean_data parse_decimal [telco_demo_row\<lparr>TotalCharges := Text ''abc''\<rparr>] = Inl ValueError"
  by (simp add: telco_clean_data_def dtype_object_def telco_demo_row_def parse_decimal_def
        parse_unsigned_def digit_val_def)

lemma demo_parse: "parse_decimal ''29.85'' = Some (597 / 20)" "parse_decimal ''108.15'' = Some (2163 / 20)"
  by (simp_all add: parse_decimal_def parse_unsigned_def digit_val_def)

lemma demo_median: "median [Some (597 / 20), None, Some (2163 / 20), Some (597 / 20)] = Some (597 / 20)"
  by code_simp

theorem telco_clean_data_coercion_witness:
  "dtype_object (map TotalCharges telco_raw_demo)
   \<and> telco_clean_data parse_decimal telco_raw_demo =
       Inr [telco_demo_row\<lparr>TotalCharges := Number (597 / 20)\<rparr>,
            telco_demo_row\<lparr>tenure := Some 0, TotalCharges := Number (597 / 20)\<rparr>,
            telco_demo_row\<lparr>TotalCharges := Number (2163 / 20)\<rparr>]"
proof -
  have obj: "dtype_object (map TotalCharges telco_raw_demo)"
    by (simp add: telco_raw_demo_def dtype_object_def)
  have vals: "map (coerced parse_decimal \<circ> TotalCharges) telco_raw_demo
     = [Some (597 / 20), None, Some (2163 / 20), Some (597 / 20)]"
    by (simp add: telco_raw_demo_def coerced_def demo_parse)
  have ok: "\<not> (\<exists>r \<in> set telco_raw_demo. unparseable parse_decimal (TotalCharges r))"
    by (simp add: telco_raw_demo_def unparseable_def demo_parse)
  show ?thesis
    using telco_clean_data_coercion[OF obj, of parse_decimal] obj ok
    by (simp add: vals demo_median)
       (simp add: telco_raw_demo_def coerced_def demo_parse median_filled_def
          drop_duplicates_def telco_demo_row_def)
qed

section \<open>Properties of the Airbnb preprocessor\<close>

subsection \<open>The feature engineer never gets past \<open>review_activity\<close>\<close>

text \<open>
  The edge list \<open>[0, 0, 10, 50, inf]\<close> of \<open>review_activity\<close> names the edge 0 twice, and
  \<open>pd.cut\<close> refuses edges that are not unique: whatever the frame, \<open>engineer_features\<close>
  ends in ValueError before \<open>availability_category\<close> and \<open>price_category\<close> are computed.
\<close>

lemma review_bins_refused: "pd_cut xs review_bins review_labels False = Inl ValueError"
  by (simp add: pd_cut_def review_bins_def)

lemma airbnb_engineer_features_raises: "airbnb_engineer_features df = Inl ValueError"
  by (simp add: airbnb_engineer_features_def review_bins_refused)

subsection \<open>The cleaner\<close>

lemma clean_airbnb_data_rows:
  "clean_airbnb_data df price_min price_max =
     fill_host_listings (fill_reviews_per_month (fill_number_of_reviews
       (dropna_critical (price_in_range price_min price_max df))))"
  by (simp add: clean_airbnb_data_def)

lemma fills_keep_critical:
  "r \<in> set (fill_host_listings (fill_reviews_per_month (fill_number_of_reviews df))) \<Longrightarrow>
     \<exists>r0 \<in> set df. neighbourhood_group r = neighbourhood_group r0
        \<and> room_type r = room_type r0 \<and> price r = price r0"
  by (auto simp: fill_host_listings_def fill_reviews_per_month_def fill_number_of_reviews_def)

lemma clean_airbnb_data_row:
  assumes "r \<in> set (clean_airbnb_data df lo hi)"
  shows "neighbourhood_group r \<noteq> None \<and> room_type r \<noteq> None
       \<and> (\<exists>p. price r = Some p \<and> lo \<le> p \<and> p \<le> hi)"
proof -
  from assms obtain r0 where r0: "r0 \<in> set (dropna_critical (price_in_range lo hi df))"
    and same: "neighbourhood_group r = neighbourhood_group r0" "room_type r = room_type r0"
      "price r = price r0"
    unfolding clean_airbnb_data_rows by (blast dest: fills_keep_critical)
  from r0 have crit: "neighbourhood_group r0 \<noteq> None" "room_type r0 \<noteq> None"
    and rng: "ge_cell (price r0) (Some lo)" "le_cell (price r0) (Some hi)"
    by (simp_all add: dropna_critical_def price_in_range_def)
  from rng obtain p where "price r0 = Some p" "lo \<le> p" "p \<le> hi"
    by (cases "price r0") simp_all
  with crit same show ?thesis by simp
qed

text \<open>
  Claim C5. For every frame and all bounds \<open>price_min\<close>, \<open>price_max\<close>, every row that
  \<open>clean_airbnb_data\<close> returns has \<open>neighbourhood_group\<close>, \<open>room_type\<close> and \<open>price\<close>
  present and its price within \<open>[price_min, price_max]\<close>; with the default bounds the price
  lies within \<open>[10, 1000]\<close>.
\<close>

theorem clean_airbnb_data_critical_and_bounds:
  "(\<forall>r \<in> set (clean_airbnb_data df price_min price_max).
       neighbourhood_group r \<noteq> None \<and> room_type r \<noteq> None
       \<and> (\<exists>p. price r = Some p \<and> price_min \<le> p \<and> p \<le> price_max))
   \<and> (\<forall>r \<in> set (clean_airbnb_data_default df).
       neighbourhood_group r \<noteq> None \<and> room_type r \<noteq> None
       \<and> (\<exists>p. price r = Some p \<and> 10 \<le> p \<and> p \<le> 1000))"
  unfolding clean_airbnb_data_default_def using clean_airbnb_data_row by blast

lemma airbnb_demo_cleaned:
  "clean_airbnb_data airbnb_demo 10 1000 =
     [airbnb_demo_row\<lparr>number_of_reviews := Some 0, reviews_per_month := Some 0,
        calculated_host_listings_count := Some 1\<rparr>]"
  by (simp add: clean_airbnb_data_def airbnb_demo_def airbnb_demo_row_def price_in_range_def
        dropna_critical_def fill_number_of_reviews_def fill_reviews_per_month_def
        fill_host_listings_def)

theorem clean_airbnb_data_critical_and_bounds_witness:
  "clean_airbnb_data airbnb_demo 10 1000 \<noteq> []
   \<and> neighbourhood_group (hd (clean_airbnb_data airbnb_demo 10 1000)) = Some ''Brooklyn''
   \<and> room_type (hd (clean_airbnb_data airbnb_demo 10 1000)) = Some ''Private room''
   \<and> price (hd (clean_airbnb_data airbnb_demo 10 1000)) = Some 120
   \<and> (\<exists>p. price (hd (clean_airbnb_data airbnb_demo 10 1000)) = Some p \<and> 10 \<le> p \<and> p \<le> 1000)"
proof -
  have mem: "hd (clean_airbnb_data airbnb_demo 10 1000) \<in> set (clean_airbnb_data airbnb_demo 10 1000)"
    by (simp add: airbnb_demo_cleaned)
  from clean_airbnb_data_critical_and_bounds[of airbnb_demo 10 1000] mem
  have "\<exists>p. price (hd (clean_airbnb_data airbnb_demo 10 1000)) = Some p \<and> 10 \<le> p \<and> p \<le> 1000"
    by blast
  then show ?thesis by (simp add: airbnb_demo_cleaned airbnb_demo_row_def)
qed

subsection \<open>The pipeline on the sample data\<close>

text \<open>
  Had the bucketing of the price been reached, it would give every cleaned row a label: a
  price within \<open>[10, 1000]\<close> lies above the first edge 0, and the last edge is infinite.
\<close>

lemma cut_one_price:
  "cut_one price_bins price_labels False (Some p) =
     (if p \<le> 0 then None
      else if p \<le> 75 then Some ''Budget''
      else if p \<le> 150 then Some ''Mid-Range''
      else if p \<le> 300 then Some ''Premium''
      else Some ''Luxury'')"
  by (simp add: cut_one_def price_bins_def price_labels_def searchsorted_left_def)

lemma price_category_of_cleaned_row:
  assumes "r \<in> set (clean_airbnb_data_default df)"
  shows "cut_one price_bins price_labels False (price r) \<in> Some ` set price_labels"
proof -
  from assms obtain p where "price r = Some p" "10 \<le> p"
    unfolding clean_airbnb_data_default_def by (blast dest: clean_airbnb_data_row)
  moreover have "Some ` set price_labels
      = {Some ''Budget'', Some ''Mid-Range'', Some ''Premium'', Some ''Luxury''}"
    by (auto simp: price_labels_def)
  ultimately show ?thesis by (simp add: cut_one_price)
qed

text \<open>
  Claim C3, evaluated. Whatever frame \<open>create_sample_data\<close> builds, cleaning it with the
  default bounds keeps at most its rows (with prices within \<open>[10, 1000]\<close>, by C5), and
  \<open>engineer_features\<close> on the cleaned frame raises ValueError: no \<open>price_category\<close> is
  ever produced.
\<close>

theorem sample_pipeline_raises:
  "length (clean_airbnb_data_default sample) \<le> length sample
   \<and> airbnb_engineer_features (clean_airbnb_data_default sample) = Inl ValueError"
  by (simp add: airbnb_engineer_features_raises clean_airbnb_data_default_def clean_airbnb_data_def
        price_in_range_def dropna_critical_def fill_number_of_reviews_def
        fill_reviews_per_month_def fill_host_listings_def le_trans[OF length_filter_le length_filter_le])

text \<open>
  Claim C7, evaluated. For the path \<open>None\<close>, and for a path that names no file, the loader
  announces the sample data and substitutes it, and then ends in the ValueError of the
  feature engineer instead of completing.
\<close>

theorem load_and_prepare_data_fallback_raises:
  "load_and_prepare_data files sample None = ([CreatingSample], Inl ValueError)
   \<and> load_and_prepare_data (\<lambda>p. None) sample (Some ''listings.csv'') = ([CreatingSample], Inl ValueError)"
  by (simp add: load_and_prepare_data_def airbnb_engineer_features_raises)

lemma cut_one_availability_0: "cut_one availability_bins availability_labels False (Some 0) = None"
  by (simp add: cut_one_def availability_bins_def searchsorted_left_def)

lemma pd_cut_availability:
  "pd_cut xs availability_bins availability_labels False
     = Inr (map (cut_one availability_bins availability_labels False) xs)"
  by (simp add: pd_cut_def availability_bins_def availability_labels_def)

text \<open>
  Claim C10, evaluated. On its own the availability bucketing over \<open>[0, 90, 180, 365]\<close>
  gives the value 0 no bin; but \<open>engineer_features\<close> on a row with
  \<open>availability_365 = 0\<close> raises before that bucketing is reached, so no row is ever
  assigned an \<open>availability_category\<close>.
\<close>

theorem availability_zero_not_reached:
  "availability_365 airbnb_demo_row = Some 0
   \<and> pd_cut [availability_365 airbnb_demo_row] availability_bins availability_labels False = Inr [None]
   \<and> airbnb_engineer_features [airbnb_demo_row] = Inl ValueError"
proof -
  have "availability_365 airbnb_demo_row = Some 0"
    by (simp add: airbnb_demo_row_def)
  then show ?thesis
    by (simp add: airbnb_engineer_features_raises pd_cut_availability cut_one_availability_0)
qed

section \<open>Properties of the Instacart scripts\<close>

subsection \<open>Columns of a frame\<close>

lemma map_of_put: "map_of (put k vs cs) c = (if c = k then Some vs else map_of cs c)"
  by (induction cs) auto

lemma get_col_set_col: "get_col c (set_col k vs df) = (if c = k then Inr vs else get_col c df)"
  by (simp add: get_col_def set_col_def map_of_put)

lemma nrows_set_col: "nrows (set_col k vs df) = nrows df"
  by (simp add: set_col_def)

lemma get_col_select_rows:
  "get_col c (select_rows sel df) = (case get_col c df of Inl e \<Rightarrow> Inl e | Inr vs \<Rightarrow> Inr (keep sel vs))"
  by (simp add: get_col_def select_rows_def map_of_map split: option.split)

subsection \<open>Distinct orders of a selection of rows\<close>

lemma set_keep:
  "set (keep (map P xs) vs) = {v. \<exists>i. i < length xs \<and> i < length vs \<and> P (xs ! i) \<and> vs ! i = v}"
  by (auto simp: keep_def set_zip image_iff) (metis nth_map)+

lemma nunique_card: "nunique vs = card {v \<in> set vs. v \<noteq> NaN}"
  by (simp add: nunique_def length_remdups_card_conv)

lemma distinct_orders_nunique:
  "distinct_orders P dow ids = nunique (keep (map P dow) ids)"
  unfolding distinct_orders_def nunique_card set_keep
  by (rule arg_cong[where f = card]) auto

subsection \<open>Accuracy of the arithmetic in doubles\<close>

lemma round_half_even_error: "\<bar>of_int (round_half_even x) - x\<bar> \<le> 1 / 2"
proof -
  have "of_int \<lfloor>x\<rfloor> \<le> x" "x < of_int \<lfloor>x\<rfloor> + 1" by linarith+
  then show ?thesis
    by (auto simp: round_half_even_def Let_def abs_le_iff)
qed

lemma binary_exponent_le:
  assumes "x \<noteq> 0"
  shows "2 powi binary_exponent x \<le> \<bar>x\<bar>"
proof -
  obtain p q where pq: "quotient_of \<bar>x\<bar> = (p, q)" by (cases "quotient_of \<bar>x\<bar>")
  then have q: "0 < q" and x: "\<bar>x\<bar> = of_int p / of_int q"
    by (auto dest: quotient_of_denom_pos quotient_of_div)
  from assms x have "(0::rat) < of_int p / of_int q" by simp
  with q have p: "0 < p" by (simp add: zero_less_divide_iff)
  let ?e = "bitlen p - bitlen q"
  show ?thesis
  proof (cases "2 powi ?e \<le> \<bar>x\<bar>")
    case True
    then show ?thesis by (simp add: binary_exponent_def pq)
  next
    case False
    have bp: "2 ^ nat (bitlen p - 1) \<le> p" and bq: "q < 2 ^ nat (bitlen q)"
      using bitlen_bounds[OF p] bitlen_bounds[OF q] by auto
    have bp1: "1 \<le> bitlen p" using p by (simp add: bitlen_alt_def)
    have bq0: "0 \<le> bitlen q" by (rule bitlen_nonneg)
    have "(2::rat) powi ((bitlen p - 1) - bitlen q) = 2 powi (bitlen p - 1) / 2 powi (bitlen q)"
      by (rule power_int_diff) simp
    moreover have "?e - 1 = (bitlen p - 1) - bitlen q" by simp
    ultimately have "(2::rat) powi (?e - 1) = 2 powi (bitlen p - 1) / 2 powi (bitlen q)"
      by (simp only:)
    also have "\<dots> = 2 ^ nat (bitlen p - 1) / 2 ^ nat (bitlen q)"
      using bp1 bq0 by (simp add: power_int_def)
    also have "\<dots> \<le> of_int p / of_int q"
    proof (rule frac_le)
      show "(0::rat) \<le> of_int p" using p by simp
      have "(of_int (2 ^ nat (bitlen p - 1)) :: rat) \<le> of_int p" using bp by (simp only: of_int_le_iff)
      then show "(2::rat) ^ nat (bitlen p - 1) \<le> of_int p" by simp
      show "(0::rat) < of_int q" using q by simp
      have "(of_int q :: rat) \<le> of_int (2 ^ nat (bitlen q))" using bq by (simp only: of_int_le_iff)
      then show "(of_int q :: rat) \<le> 2 ^ nat (bitlen q)" by simp
    qed
    finally have "(2::rat) powi (?e - 1) \<le> \<bar>x\<bar>" by (simp only: x)
    moreover have "binary_exponent x = ?e - 1"
      using False by (simp add: binary_exponent_def pq)
    ultimately show ?thesis by (simp only:)
  qed
qed

lemma round_double_error: "\<bar>round_double x - x\<bar> \<le> \<bar>x\<bar> / 2 ^ 53"
proof (cases "x = 0")
  case True
  then show ?thesis by (simp add: round_double_def)
next
  case False
  let ?e = "binary_exponent x"
  let ?ulp = "(2::rat) powi (?e - 52)"
  have ulp: "0 < ?ulp" by simp
  have "round_double x - x = (of_int (round_half_even (x / ?ulp)) - x / ?ulp) * ?ulp"
    using False ulp by (simp add: round_double_def Let_def algebra_simps)
  then have "\<bar>round_double x - x\<bar> = \<bar>of_int (round_half_even (x / ?ulp)) - x / ?ulp\<bar> * ?ulp"
    using ulp by (simp add: abs_mult)
  also have "\<dots> \<le> 1 / 2 * ?ulp"
    using round_half_even_error[of "x / ?ulp"] ulp by (intro mult_right_mono) auto
  also have "\<dots> = 2 powi ?e / 2 ^ 53"
  proof -
    have "(2::rat) powi (?e - 52) = 2 powi ?e / 2 powi 52"
      by (rule power_int_diff) simp
    then show ?thesis by simp
  qed
  also have "\<dots> \<le> \<bar>x\<bar> / 2 ^ 53"
    using binary_exponent_le[OF False] by (simp add: divide_right_mono)
  finally show ?thesis .
qed

lemma lift_accuracy:
  "\<bar>float_mul (int_truediv a b) 100 - of_int a / of_int b * 100\<bar>
     \<le> \<bar>of_int a / of_int b * 100\<bar> * 3 / 2 ^ 53"
proof -
  define x :: rat where "x = of_int a / of_int b"
  define y where "y = round_double x"
  define z where "z = round_double (y * 100)"
  have A: "\<bar>y - x\<bar> \<le> \<bar>x\<bar> / 2 ^ 53"
    unfolding y_def by (rule round_double_error)
  have B: "\<bar>z - y * 100\<bar> \<le> \<bar>y * 100\<bar> / 2 ^ 53"
    unfolding z_def by (rule round_double_error)
  have small: "\<bar>x\<bar> / 2 ^ 53 \<le> \<bar>x\<bar>"
    by (simp add: divide_le_eq)
  have "\<bar>y\<bar> \<le> \<bar>x\<bar> + \<bar>y - x\<bar>" by simp
  with A small have y2: "\<bar>y\<bar> \<le> 2 * \<bar>x\<bar>" by linarith
  have B': "\<bar>z - y * 100\<bar> \<le> 200 * (\<bar>x\<bar> / 2 ^ 53)"
  proof -
    have "\<bar>y * 100\<bar> / 2 ^ 53 = 100 * (\<bar>y\<bar> / 2 ^ 53)" by (simp add: abs_mult)
    also have "\<dots> \<le> 100 * (2 * \<bar>x\<bar> / 2 ^ 53)"
      using y2 by (intro mult_left_mono divide_right_mono) simp_all
    finally show ?thesis using B by simp
  qed
  have "\<bar>z - x * 100\<bar> \<le> \<bar>z - y * 100\<bar> + \<bar>(y - x) * 100\<bar>"
    by (simp add: algebra_simps)
  also have "\<bar>(y - x) * 100\<bar> = 100 * \<bar>y - x\<bar>" using abs_mult[of "y - x" 100] by simp
  finally have "\<bar>z - x * 100\<bar> \<le> 300 * (\<bar>x\<bar> / 2 ^ 53)"
    using A B' by linarith
  then have "\<bar>z - x * 100\<bar> \<le> \<bar>x * 100\<bar> * 3 / 2 ^ 53"
    by (simp add: abs_mult)
  then show ?thesis
    by (simp add: float_mul_def int_truediv_def x_def y_def z_def)
qed

subsection \<open>The weekend lift in the summary\<close>

lemma weekend_lift_counts:
  assumes "get_col ''order_dow'' master_df = Inr dow"
    and "get_col ''order_id'' master_df = Inr ids"
  shows "weekend_lift master_df =
     Inr (if 0 < distinct_orders (\<lambda>v. \<not> isin_0_6 v) dow ids
          then float_mul
                 (int_truediv (int (distinct_orders isin_0_6 dow ids)
                                 - int (distinct_orders (\<lambda>v. \<not> isin_0_6 v) dow ids))
                    (int (distinct_orders (\<lambda>v. \<not> isin_0_6 v) dow ids)))
                 100
          else 0)"
  unfolding distinct_orders_nunique
  by (simp add: weekend_lift_def assms get_col_select_rows Let_def)

lemma py_round1_0: "py_round1 0 = 0"
  by (simp add: py_round1_def round_half_even_def round_double_def)

lemma demo_cols:
  "get_col ''order_dow'' instacart_demo = Inr [Num 0, Num 0, Num 6, Num 6, Num 3]"
  "get_col ''order_id'' instacart_demo = Inr [Num 1, Num 1, Num 2, Num 3, Num 4]"
  "get_col ''order_dow'' instacart_weekend_only = Inr [Num 6]"
  "get_col ''order_id'' instacart_weekend_only = Inr [Num 1]"
  "get_col ''order_dow'' instacart_week = Inr [Num 0, Num 6, Num 0, Num 6, Num 1, Num 2, Num 3]"
  "get_col ''order_id'' instacart_week = Inr [Num 1, Num 2, Num 3, Num 4, Num 5, Num 6, Num 7]"
  by (simp_all add: get_col_def instacart_demo_def instacart_weekend_only_def instacart_week_def)

lemma demo_counts:
  "distinct_orders isin_0_6 [Num 0, Num 0, Num 6, Num 6, Num 3] [Num 1, Num 1, Num 2, Num 3, Num 4] = 3"
  "distinct_orders (\<lambda>v. \<not> isin_0_6 v) [Num 0, Num 0, Num 6, Num 6, Num 3] [Num 1, Num 1, Num 2, Num 3, Num 4] = 1"
  "distinct_orders (\<lambda>v. \<not> isin_0_6 v) [Num 6] [Num 1] = 0"
  "distinct_orders isin_0_6 [Num 0, Num 6, Num 0, Num 6, Num 1, Num 2, Num 3]
     [Num 1, Num 2, Num 3, Num 4, Num 5, Num 6, Num 7] = 4"
  "distinct_orders (\<lambda>v. \<not> isin_0_6 v) [Num 0, Num 6, Num 0, Num 6, Num 1, Num 2, Num 3]
     [Num 1, Num 2, Num 3, Num 4, Num 5, Num 6, Num 7] = 3"
  by (simp_all add: distinct_orders_nunique nunique_def keep_def isin_0_6_def)

lemma demo_doubles:
  "float_mul (int_truediv 2 1) 100 = 200"
  "py_round1 200 = 200"
  "float_mul (int_truediv 1 3) 100 = 2345624805922133 / 70368744177664"
  "py_round1 (2345624805922133 / 70368744177664) = 2343279181116211 / 70368744177664"
  by code_simp+

lemma lift_107_100: "float_mul (int_truediv (107 - 100) 100) 100 = 7 + 1 / 2 ^ 50"
  by code_simp

text \<open>
  Claim C4, as the code has it. Let \<open>W\<close> be the number of distinct orders among the rows
  with \<open>order_dow\<close> in \<open>{0, 6}\<close> and \<open>D\<close> the number of distinct orders among the other
  rows. If \<open>D > 0\<close>, \<open>weekend_lift\<close> is \<open>(W - D) / D * 100\<close> evaluated in doubles: the
  quotient of the two ints rounded to a double, then its product with 100 rounded to a
  double. That value lies within a relative error of \<open>3 / 2^53\<close> of the exact
  \<open>(W - D) / D * 100\<close>. \<open>instacart_analysis_demo.py\<close> stores it in the summary as computed,
  \<open>complete_4p_analysis.py\<close> stores it rounded to one decimal. If \<open>D = 0\<close>, both store 0.
\<close>

theorem weekend_lift_in_doubles:
  assumes dow: "get_col ''order_dow'' master_df = Inr dow"
    and ids: "get_col ''order_id'' master_df = Inr ids"
  defines "W \<equiv> distinct_orders isin_0_6 dow ids"
    and "D \<equiv> distinct_orders (\<lambda>v. \<not> isin_0_6 v) dow ids"
  defines "lift \<equiv> float_mul (int_truediv (int W - int D) (int D)) 100"
  shows "(0 < D \<longrightarrow>
            weekend_lift master_df = Inr lift
            \<and> demo_summary_weekend_lift master_df = Inr lift
            \<and> complete_summary_weekend_lift master_df = Inr (py_round1 lift)
            \<and> \<bar>lift - (of_nat W - of_nat D) / of_nat D * 100\<bar>
                 \<le> \<bar>(of_nat W - of_nat D) / of_nat D * 100\<bar> * 3 / 2 ^ 53)
       \<and> (D = 0 \<longrightarrow>
            weekend_lift master_df = Inr 0
            \<and> demo_summary_weekend_lift master_df = Inr 0
            \<and> complete_summary_weekend_lift master_df = Inr 0)"
proof -
  have acc: "\<bar>lift - (of_nat W - of_nat D) / of_nat D * 100\<bar>
                 \<le> \<bar>(of_nat W - of_nat D) / of_nat D * 100\<bar> * 3 / 2 ^ 53"
    unfolding lift_def using lift_accuracy[of "int W - int D" "int D"] by simp
  have wl: "weekend_lift master_df = Inr (if 0 < D then lift else 0)"
    unfolding lift_def W_def D_def by (rule weekend_lift_counts[OF dow ids])
  show ?thesis
    using acc by (simp add: wl demo_summary_weekend_lift_def complete_summary_weekend_lift_def py_round1_0)
qed

text \<open>
  The claim as stated (\<open>weekend_lift\<close> equals \<open>(W - D) / D * 100\<close> exactly) fails for
  \<open>W = 4\<close>, \<open>D = 3\<close>: the computed double is not \<open>100 / 3\<close>, and the complete script
  stores the double next to 33.3. Even an exact value that is a double can be missed: for
  \<open>W = 107\<close>, \<open>D = 100\<close> the arithmetic gives \<open>7 + 2^-50\<close>.
\<close>

theorem weekend_lift_not_exact:
  "get_col ''order_dow'' instacart_week = Inr [Num 0, Num 6, Num 0, Num 6, Num 1, Num 2, Num 3]
   \<and> get_col ''order_id'' instacart_week = Inr [Num 1, Num 2, Num 3, Num 4, Num 5, Num 6, Num 7]
   \<and> distinct_orders isin_0_6 [Num 0, Num 6, Num 0, Num 6, Num 1, Num 2, Num 3]
        [Num 1, Num 2, Num 3, Num 4, Num 5, Num 6, Num 7] = 4
   \<and> distinct_orders (\<lambda>v. \<not> isin_0_6 v) [Num 0, Num 6, Num 0, Num 6, Num 1, Num 2, Num 3]
        [Num 1, Num 2, Num 3, Num 4, Num 5, Num 6, Num 7] = 3
   \<and> weekend_lift instacart_week = Inr (2345624805922133 / 2 ^ 46)
   \<and> weekend_lift instacart_week \<noteq> Inr ((4 - 3) / 3 * 100)
   \<and> complete_summary_weekend_lift instacart_week = Inr (2343279181116211 / 2 ^ 46)
   \<and> complete_summary_weekend_lift instacart_week \<noteq> Inr ((4 - 3) / 3 * 100)
   \<and> float_mul (int_truediv (107 - 100) 100) 100 = 7 + 1 / 2 ^ 50"
proof -
  have wl: "weekend_lift instacart_week = Inr (2345624805922133 / 70368744177664)"
    using weekend_lift_counts[OF demo_cols(5,6)] by (simp add: demo_counts demo_doubles)
  then have cs: "complete_summary_weekend_lift instacart_week = Inr (2343279181116211 / 70368744177664)"
    by (simp add: complete_summary_weekend_lift_def demo_doubles)
  have "weekend_lift instacart_week = Inr (2345624805922133 / 2 ^ 46)"
    "weekend_lift instacart_week \<noteq> Inr ((4 - 3) / 3 * 100)"
    "complete_summary_weekend_lift instacart_week = Inr (2343279181116211 / 2 ^ 46)"
    "complete_summary_weekend_lift instacart_week \<noteq> Inr ((4 - 3) / 3 * 100)"
    unfolding wl cs by simp_all
  with demo_cols(5,6) demo_counts(4,5) lift_107_100 show ?thesis by (intro conjI)
qed

theorem weekend_lift_in_doubles_witness:
  "get_col ''order_dow'' instacart_demo = Inr [Num 0, Num 0, Num 6, Num 6, Num 3]
   \<and> get_col ''order_id'' instacart_demo = Inr [Num 1, Num 1, Num 2, Num 3, Num 4]
   \<and> distinct_orders isin_0_6 [Num 0, Num 0, Num 6, Num 6, Num 3] [Num 1, Num 1, Num 2, Num 3, Num 4] = 3
   \<and> distinct_orders (\<lambda>v. \<not> isin_0_6 v) [Num 0, Num 0, Num 6, Num 6, Num 3] [Num 1, Num 1, Num 2, Num 3, Num 4] = 1
   \<and> weekend_lift instacart_demo = Inr 200
   \<and> demo_summary_weekend_lift instacart_demo = Inr 200
   \<and> complete_summary_weekend_lift instacart_demo = Inr 200
   \<and> distinct_orders (\<lambda>v. \<not> isin_0_6 v) [Num 6] [Num 1] = 0
   \<and> weekend_lift instacart_weekend_only = Inr 0
   \<and> complete_summary_weekend_lift instacart_weekend_only = Inr 0"
proof -
  from weekend_lift_in_doubles[OF demo_cols(1,2)]
  have "weekend_lift instacart_demo = Inr 200"
    "demo_summary_weekend_lift instacart_demo = Inr 200"
    "complete_summary_weekend_lift instacart_demo = Inr 200"
    by (simp_all add: demo_counts demo_doubles)
  moreover from weekend_lift_in_doubles[OF demo_cols(3,4)]
  have "weekend_lift instacart_weekend_only = Inr 0"
    "complete_summary_weekend_lift instacart_weekend_only = Inr 0"
    by (simp_all add: demo_counts)
  ultimately show ?thesis using demo_cols(1,2) demo_counts(1,2,3) by simp
qed

subsection \<open>What a stage does to the frame it is given\<close>

lemma clean_airbnb_data_obj_effect:
  assumes "df < next_ref st"
  shows "case clean_airbnb_data_obj st df price_min price_max of
           (st', res) \<Rightarrow>
             heap st' df = heap st df
             \<and> (\<forall>a. a < next_ref st \<longrightarrow> heap st' a = heap st a)
             \<and> next_ref st \<le> res
             \<and> heap st' res = clean_airbnb_data (heap st df) price_min price_max"
  using assms
  by (simp add: clean_airbnb_data_obj_def clean_airbnb_data_def alloc_def assign_def Let_def)

lemma instacart_clean_data_effect:
  assumes "df < next_ref st"
  shows "case instacart_clean_data st df of
           (st', res) \<Rightarrow>
             (\<forall>a. a < next_ref st \<longrightarrow> a \<noteq> df \<longrightarrow> heap st' a = heap st a)
             \<and> nrows (heap st' df) = nrows (heap st df)
             \<and> (\<forall>c. c \<noteq> ''days_since_prior_order'' \<longrightarrow>
                    get_col c (heap st' df) = get_col c (heap st df))
             \<and> (case get_col ''days_since_prior_order'' (heap st df) of
                   Inl e \<Rightarrow> st' = st \<and> res = Inl e
                 | Inr days \<Rightarrow>
                     heap st' df = set_col ''days_since_prior_order''
                                     (map (fillna_cell (Num 0)) days) (heap st df))
             \<and> (\<forall>a. res = Inr a \<longrightarrow> next_ref st \<le> a)"
  using assms
  by (auto simp: instacart_clean_data_def alloc_def assign_def Let_def get_col_set_col
        nrows_set_col split: sum.splits)

lemma pd_cut_hours: "pd_cut hs hour_bins hour_labels True = Inr (map (cut_one hour_bins hour_labels True) hs)"
  by (simp add: pd_cut_def hour_bins_def hour_labels_def)

lemma instacart_engineer_features_effect:
  assumes "df < next_ref st"
  shows "case instacart_engineer_features st df of
           (st', res) \<Rightarrow>
             (\<forall>a. a < next_ref st \<longrightarrow> a \<noteq> df \<longrightarrow> heap st' a = heap st a)
             \<and> nrows (heap st' df) = nrows (heap st df)
             \<and> (\<forall>c. c \<noteq> ''synthetic_date'' \<longrightarrow> c \<noteq> ''order_dow_name'' \<longrightarrow> c \<noteq> ''hour_category'' \<longrightarrow>
                    get_col c (heap st' df) = get_col c (heap st df))
             \<and> (\<forall>a. res = Inr a \<longrightarrow>
                    next_ref st \<le> a
                    \<and> (\<exists>numbers dow hours.
                          get_col ''order_number'' (heap st df) = Inr numbers
                          \<and> get_col ''order_dow'' (heap st df) = Inr dow
                          \<and> get_col ''order_hour_of_day'' (heap st df) = Inr hours
                          \<and> (\<exists>ns hs. numeric numbers = Inr ns \<and> numeric hours = Inr hs
                                \<and> heap st' df =
                                    set_col ''hour_category''
                                      (map label_cell (map (cut_one hour_bins hour_labels True) hs))
                                      (set_col ''order_dow_name'' (map dow_name_of dow)
                                        (set_col ''synthetic_date'' (map synthetic_date_of ns)
                                          (heap st df))))))"
  using assms
  by (auto simp: instacart_engineer_features_def alloc_def assign_def Let_def get_col_set_col
        nrows_set_col pd_cut_hours split: sum.splits)

lemma demo_store_live: "0 < next_ref instacart_demo_store" "0 < next_ref airbnb_demo_store"
  "heap instacart_demo_store 0 = instacart_demo" "heap airbnb_demo_store 0 = airbnb_demo"
  by (simp_all add: instacart_demo_store_def airbnb_demo_store_def)

lemma demo_days:
  "get_col ''days_since_prior_order'' instacart_demo = Inr [NaN, NaN, Num 7, Num 30, Num 2]"
  by (simp add: get_col_def instacart_demo_def)

text \<open>
  Claim C8, as the code has it. \<open>clean_airbnb_data\<close> works on a copy: the caller's frame,
  and every other frame in use, is unchanged, and the result is a new object. The Instacart
  stages work on the caller's frame itself. \<open>clean_data\<close> overwrites its
  \<open>days_since_prior_order\<close> column with the missing cells set to 0, and
  \<open>engineer_features\<close> assigns it the columns \<open>synthetic_date\<close>, \<open>order_dow_name\<close> and
  \<open>hour_category\<close>; the number of rows and every other column of the caller's frame, and
  every other frame in use, stay as they were, and the frame a stage returns is a new object.
\<close>

theorem stage_effects_on_caller_frame:
  assumes listings: "listings < next_ref sa"
    and master: "master < next_ref st"
  shows "(case clean_airbnb_data_obj sa listings price_min price_max of
           (sa', res) \<Rightarrow>
             heap sa' listings = heap sa listings
             \<and> (\<forall>a. a < next_ref sa \<longrightarrow> heap sa' a = heap sa a)
             \<and> next_ref sa \<le> res
             \<and> heap sa' res = clean_airbnb_data (heap sa listings) price_min price_max)
       \<and> (case instacart_clean_data st master of
           (st', res) \<Rightarrow>
             (\<forall>a. a < next_ref st \<longrightarrow> a \<noteq> master \<longrightarrow> heap st' a = heap st a)
             \<and> nrows (heap st' master) = nrows (heap st master)
             \<and> (\<forall>c. c \<noteq> ''days_since_prior_order'' \<longrightarrow>
                    get_col c (heap st' master) = get_col c (heap st master))
             \<and> (case get_col ''days_since_prior_order'' (heap st master) of
                   Inl e \<Rightarrow> st' = st \<and> res = Inl e
                 | Inr days \<Rightarrow>
                     heap st' master = set_col ''days_since_prior_order''
                                         (map (fillna_cell (Num 0)) days) (heap st master))
             \<and> (\<forall>a. res = Inr a \<longrightarrow> next_ref st \<le> a))
       \<and> (case instacart_engineer_features st master of
           (st', res) \<Rightarrow>
             (\<forall>a. a < next_ref st \<longrightarrow> a \<noteq> master \<longrightarrow> heap st' a = heap st a)
             \<and> nrows (heap st' master) = nrows (heap st master)
             \<and> (\<forall>c. c \<noteq> ''synthetic_date'' \<longrightarrow> c \<noteq> ''order_dow_name'' \<longrightarrow> c \<noteq> ''hour_category'' \<longrightarrow>
                    get_col c (heap st' master) = get_col c (heap st master))
             \<and> (\<forall>a. res = Inr a \<longrightarrow>
                    next_ref st \<le> a
                    \<and> (\<exists>numbers dow hours.
                          get_col ''order_number'' (heap st master) = Inr numbers
                          \<and> get_col ''order_dow'' (heap st master) = Inr dow
                          \<and> get_col ''order_hour_of_day'' (heap st master) = Inr hours
                          \<and> (\<exists>ns hs. numeric numbers = Inr ns \<and> numeric hours = Inr hs
                                \<and> heap st' master =
                                    set_col ''hour_category''
                                      (map label_cell (map (cut_one hour_bins hour_labels True) hs))
                                      (set_col ''order_dow_name'' (map dow_name_of dow)
                                        (set_col ''synthetic_date'' (map synthetic_date_of ns)
                                          (heap st master)))))))"
  using clean_airbnb_data_obj_effect[OF listings, of price_min price_max]
    instacart_clean_data_effect[OF master] instacart_engineer_features_effect[OF master]
  by (intro conjI)

text \<open>
  The claim as stated (no stage changes the frame passed to it) fails for \<open>clean_data\<close> on
  the sample master frame: after the call the caller's frame holds 0 where it held NaN.
\<close>

theorem instacart_clean_data_mutates_input:
  "get_col ''days_since_prior_order'' (heap instacart_demo_store 0)
     = Inr [NaN, NaN, Num 7, Num 30, Num 2]
   \<and> get_col ''days_since_prior_order'' (heap (fst (instacart_clean_data instacart_demo_store 0)) 0)
     = Inr [Num 0, Num 0, Num 7, Num 30, Num 2]
   \<and> heap (fst (instacart_clean_data instacart_demo_store 0)) 0 \<noteq> heap instacart_demo_store 0"
proof -
  have after: "heap (fst (instacart_clean_data instacart_demo_store 0)) 0
      = set_col ''days_since_prior_order'' [Num 0, Num 0, Num 7, Num 30, Num 2] instacart_demo"
    using instacart_clean_data_effect[OF demo_store_live(1)]
    by (simp add: split_beta demo_store_live demo_days fillna_cell_def)
  have "get_col ''days_since_prior_order'' (heap (fst (instacart_clean_data instacart_demo_store 0)) 0)
     = Inr [Num 0, Num 0, Num 7, Num 30, Num 2]"
    unfolding after by (simp add: get_col_set_col)
  then show ?thesis
    using demo_days by (auto simp: demo_store_live)
qed

theorem stage_effects_on_caller_frame_witness:
  "0 < next_ref airbnb_demo_store \<and> 0 < next_ref instacart_demo_store
   \<and> heap (fst (clean_airbnb_data_obj airbnb_demo_store 0 10 1000)) 0 = airbnb_demo
   \<and> heap (fst (instacart_clean_data instacart_demo_store 0)) 0
       = set_col ''days_since_prior_order'' [Num 0, Num 0, Num 7, Num 30, Num 2] instacart_demo
   \<and> get_col ''order_id'' (heap (fst (instacart_clean_data instacart_demo_store 0)) 0)
       = get_col ''order_id'' instacart_demo
   \<and> get_col ''order_id'' (heap (fst (instacart_engineer_features instacart_demo_store 0)) 0)
       = get_col ''order_id'' instacart_demo"
  using stage_effects_on_caller_frame[OF demo_store_live(2) demo_store_live(1), of 10 1000]
  by (simp add: split_beta demo_store_live demo_days fillna_cell_def get_col_set_col)

end
